theory Spec2Isabelle
  imports Complex_Main "HOL-Library.Sublist" "HOL-Library.Char_ord" "HOL-Library.List_Lexorder"
begin

section \<open>Strings\<close>

text \<open>
  Query texts are lists of code units below 256 (Latin-1).  JavaScript compares strings
  code unit by code unit, a proper prefix being smaller: this is the lexicographic order
  on \<^typ>\<open>char list\<close>.
\<close>

definition toLowerCase_char :: "char \<Rightarrow> char" where
  "toLowerCase_char c =
     (let n = (of_char c :: nat)
      in if (65 \<le> n \<and> n \<le> 90) \<or> (192 \<le> n \<and> n \<le> 222 \<and> n \<noteq> 215)
         then char_of (n + 32) else c)"

definition toLowerCase :: "string \<Rightarrow> string" where
  "toLowerCase s = map toLowerCase_char s"

text \<open>\<open>s.includes(sub)\<close>: \<open>sub\<close> occurs in \<open>s\<close> as a contiguous block.\<close>

fun includes_str :: "string \<Rightarrow> string \<Rightarrow> bool" where
  "includes_str [] sub = (sub = [])"
| "includes_str (c # cs) sub = (prefix sub (c # cs) \<or> includes_str cs sub)"

section \<open>Relevance classifier (server/routes/query.ts, the second module of the file data.ts)\<close>

record DataTypeFlags =
  sleep :: bool
  activity :: bool
  readiness :: bool
  heartRate :: bool

definition detectRelevantDataTypes :: "string \<Rightarrow> DataTypeFlags" where
  "detectRelevantDataTypes query =
     (let q = toLowerCase query;
          wantsSleep = (includes_str q ''sleep'' \<or> includes_str q ''rest'' \<or> includes_str q ''night''
                        \<or> includes_str q ''bed'' \<or> includes_str q ''rem'' \<or> includes_str q ''deep''
                        \<or> includes_str q ''awake'');
          wantsActivity = (includes_str q ''activity'' \<or> includes_str q ''step'' \<or> includes_str q ''active''
                        \<or> includes_str q ''exercise'' \<or> includes_str q ''workout''
                        \<or> includes_str q ''calories'' \<or> includes_str q ''move'');
          wantsReadiness = (includes_str q ''readiness'' \<or> includes_str q ''recovery''
                        \<or> includes_str q ''ready'' \<or> includes_str q ''stress'' \<or> includes_str q ''strain'');
          wantsHeartRate = (includes_str q ''heart'' \<or> includes_str q ''hr'' \<or> includes_str q ''bpm''
                        \<or> includes_str q ''pulse'');
          noSpecificType = (\<not> wantsSleep \<and> \<not> wantsActivity \<and> \<not> wantsReadiness
                        \<and> \<not> wantsHeartRate)
      in \<lparr> sleep = wantsSleep \<or> noSpecificType,
           activity = wantsActivity \<or> noSpecificType,
           readiness = wantsReadiness \<or> noSpecificType,
           heartRate = wantsHeartRate \<rparr>)"

text \<open>
  The older handler of the same route (the second module of the file server/routes.ts)
  classifies inline, with \<open>resting\<close> among the heart-rate keywords, without \<open>awake\<close>,
  and with activity included only on request.
\<close>

definition legacy_relevant_types :: "string \<Rightarrow> DataTypeFlags" where
  "legacy_relevant_types query =
     (let queryLower = toLowerCase query;
          wantsSleep = (includes_str queryLower ''sleep'' \<or> includes_str queryLower ''rest''
                        \<or> includes_str queryLower ''night'' \<or> includes_str queryLower ''bed''
                        \<or> includes_str queryLower ''rem'' \<or> includes_str queryLower ''deep'');
          wantsActivity = (includes_str queryLower ''activity'' \<or> includes_str queryLower ''step''
                        \<or> includes_str queryLower ''active'' \<or> includes_str queryLower ''exercise''
                        \<or> includes_str queryLower ''workout'' \<or> includes_str queryLower ''calories''
                        \<or> includes_str queryLower ''move'');
          wantsReadiness = (includes_str queryLower ''readiness''
                        \<or> includes_str queryLower ''recovery'' \<or> includes_str queryLower ''ready''
                        \<or> includes_str queryLower ''stress'' \<or> includes_str queryLower ''strain'');
          wantsHeartRate = (includes_str queryLower ''heart'' \<or> includes_str queryLower ''hr''
                        \<or> includes_str queryLower ''bpm'' \<or> includes_str queryLower ''pulse''
                        \<or> includes_str queryLower ''resting'');
          noSpecificType = (\<not> wantsSleep \<and> \<not> wantsActivity \<and> \<not> wantsReadiness
                        \<and> \<not> wantsHeartRate)
      in \<lparr> sleep = wantsSleep \<or> noSpecificType,
           activity = wantsActivity,
           readiness = wantsReadiness \<or> noSpecificType,
           heartRate = wantsHeartRate \<rparr>)"

text \<open>The keyword lists of the four categories, as the classifier tests them.\<close>

definition sleep_keywords :: "string list" where
  "sleep_keywords = [''sleep'', ''rest'', ''night'', ''bed'', ''rem'', ''deep'', ''awake'']"

definition activity_keywords :: "string list" where
  "activity_keywords =
     [''activity'', ''step'', ''active'', ''exercise'', ''workout'', ''calories'', ''move'']"

definition readiness_keywords :: "string list" where
  "readiness_keywords = [''readiness'', ''recovery'', ''ready'', ''stress'', ''strain'']"

definition heartRate_keywords :: "string list" where
  "heartRate_keywords = [''heart'', ''hr'', ''bpm'', ''pulse'']"

definition category_keywords :: "string list" where
  "category_keywords =
     sleep_keywords @ activity_keywords @ readiness_keywords @ heartRate_keywords"

text \<open>The query of the specification's example: \<open>What's my resting heart rate?\<close>\<close>

definition resting_query :: string where
  "resting_query = ''What'' @ [CHR 0x27] @ ''s my resting heart rate?''"

section \<open>Session response cache (server/cache.ts)\<close>

text \<open>
  The cached arrays are \<open>any[]\<close>; the cache reads only the \<open>day\<close> field of an item and
  the \<open>timestamp\<close> field of a heart-rate reading.  A missing field is \<open>None\<close>
  (\<open>undefined\<close> compares false against every string).  The rest of an item is a payload.
\<close>

record 'p item =
  day :: "string option"
  payload :: 'p

record reading =
  timestamp :: "string option"
  bpm :: int
  source :: string

text \<open>
  \<open>dailyStats\<close> is an object keyed by calendar day: the list of its entries in the order
  \<open>Object.entries\<close> enumerates them (insertion order for day keys), keys distinct.
\<close>

record 's HeartRateResult =
  readings :: "reading list"
  dailyStats :: "(string \<times> 's) list"

text \<open>
  The \<open>data\<close> object of an entry.  Its fields are named \<open>sleep\<close>, \<open>activity\<close>,
  \<open>readiness\<close> and \<open>heartRate\<close> in the source; they carry the suffix \<open>_data\<close> here,
  the plain names being the fields of \<^typ>\<open>DataTypeFlags\<close>.
\<close>

record ('p, 's) OuraData =
  sleep_data :: "'p item list"
  activity_data :: "'p item list"
  readiness_data :: "'p item list"
  heartRate_data :: "'s HeartRateResult"

text \<open>
  \<open>startDate\<close> and \<open>endDate\<close> are the fields that \<open>DateRange\<close> and \<open>CacheEntry\<close> have
  in common.
\<close>

record DateSpan =
  startDate :: string
  endDate :: string

record DateRange = DateSpan +
  usesCustomRange :: bool

text \<open>
  The field \<open>timestamp\<close> of an entry is \<open>timestamp_ms\<close> here, \<open>timestamp\<close> being the
  field of a heart-rate reading.
\<close>

record ('p, 's) CacheEntry = DateSpan +
  data :: "('p, 's) OuraData"
  includedTypes :: DataTypeFlags
  timestamp_ms :: int

text \<open>
  The cache object: the map from session id to entry and the time to live (milliseconds).
  \<open>Date.now()\<close> is the argument \<open>now\<close> of the methods that read the clock; a method
  that mutates the map returns the new cache.
\<close>

record ('p, 's) OuraCache =
  cache :: "string \<rightharpoonup> ('p, 's) CacheEntry"
  TTL :: int


definition cleanup :: "('p, 's) OuraCache \<Rightarrow> int \<Rightarrow> ('p, 's) OuraCache" where
  "cleanup c now =
     c\<lparr> cache := (\<lambda>key. case cache c key of
                         None \<Rightarrow> None
                       | Some entry \<Rightarrow>
                           if now - timestamp_ms entry > TTL c then None else Some entry) \<rparr>"

definition get :: "('p, 's) OuraCache \<Rightarrow> int \<Rightarrow> string
                    \<Rightarrow> ('p, 's) CacheEntry option \<times> ('p, 's) OuraCache" where
  "get c now sessionId =
     (case cache c sessionId of
        None \<Rightarrow> (None, c)
      | Some entry \<Rightarrow>
          if now - timestamp_ms entry > TTL c
          then (None, c\<lparr> cache := (cache c)(sessionId := None) \<rparr>)
          else (Some entry, c))"

definition set_entry :: "('p, 's) OuraCache \<Rightarrow> int \<Rightarrow> string \<Rightarrow> string \<Rightarrow> string
                    \<Rightarrow> ('p, 's) OuraData \<Rightarrow> DataTypeFlags \<Rightarrow> ('p, 's) OuraCache" where
  "set_entry c now sessionId sd ed d types =
     c\<lparr> cache := (cache c)(sessionId \<mapsto>
           \<lparr> startDate = sd, endDate = ed, data = d, includedTypes = types,
             timestamp_ms = now \<rparr>) \<rparr>"

definition clear :: "('p, 's) OuraCache \<Rightarrow> string \<Rightarrow> ('p, 's) OuraCache" where
  "clear c sessionId = c\<lparr> cache := (cache c)(sessionId := None) \<rparr>"

definition matches :: "('p, 's) CacheEntry \<Rightarrow> string \<Rightarrow> string \<Rightarrow> DataTypeFlags \<Rightarrow> bool" where
  "matches entry sd ed neededTypes =
     (if startDate entry = [] \<or> endDate entry = [] then False
      else if startDate entry > sd \<or> endDate entry < ed then False
      else if sleep neededTypes \<and> \<not> sleep (includedTypes entry) then False
      else if activity neededTypes \<and> \<not> activity (includedTypes entry) then False
      else if readiness neededTypes \<and> \<not> readiness (includedTypes entry) then False
      else if heartRate neededTypes \<and> \<not> heartRate (includedTypes entry) then False
      else True)"

text \<open>\<open>s.split(sep)\<close> for a separator of one character: the pieces between separators.\<close>

fun split_str :: "char \<Rightarrow> string \<Rightarrow> string list" where
  "split_str sep [] = [[]]"
| "split_str sep (c # cs) =
     (if c = sep then [] # split_str sep cs
      else (case split_str sep cs of
              [] \<Rightarrow> [[c]]
            | piece # pieces \<Rightarrow> (c # piece) # pieces))"

text \<open>\<open>xs[0]\<close>, \<open>undefined\<close> on an empty array.\<close>

definition first_elem :: "'a list \<Rightarrow> 'a option" where
  "first_elem xs = (case xs of [] \<Rightarrow> None | x # _ \<Rightarrow> Some x)"

definition filterByDate :: "string \<Rightarrow> string \<Rightarrow> 'p item list \<Rightarrow> 'p item list" where
  "filterByDate sd ed items =
     filter (\<lambda>item. case day item of
                       None \<Rightarrow> False
                     | Some d \<Rightarrow> d \<ge> sd \<and> d \<le> ed) items"

text \<open>\<open>obj[key] = value\<close> on an object held as its list of entries.\<close>

fun assign_key :: "string \<Rightarrow> 's \<Rightarrow> (string \<times> 's) list \<Rightarrow> (string \<times> 's) list" where
  "assign_key k v [] = [(k, v)]"
| "assign_key k v ((k', v') # rest) =
     (if k' = k then (k, v) # rest else (k', v') # assign_key k v rest)"

definition filterHeartRate :: "string \<Rightarrow> string \<Rightarrow> 's HeartRateResult \<Rightarrow> 's HeartRateResult" where
  "filterHeartRate sd ed hrData =
     (let filteredReadings =
            filter (\<lambda>r. case Option.bind (timestamp r) (\<lambda>ts. first_elem (split_str (CHR ''T'') ts)) of
                          None \<Rightarrow> False
                        | Some d \<Rightarrow> d \<ge> sd \<and> d \<le> ed) (readings hrData);
          filteredStats =
            fold (\<lambda>(d, stats) acc. if d \<ge> sd \<and> d \<le> ed then assign_key d stats acc else acc)
                 (dailyStats hrData) []
      in \<lparr> readings = filteredReadings, dailyStats = filteredStats \<rparr>)"

definition filterData :: "('p, 's) CacheEntry \<Rightarrow> string \<Rightarrow> string \<Rightarrow> ('p, 's) OuraData" where
  "filterData entry sd ed =
     \<lparr> sleep_data = filterByDate sd ed (sleep_data (data entry)),
       activity_data = filterByDate sd ed (activity_data (data entry)),
       readiness_data = filterByDate sd ed (readiness_data (data entry)),
       heartRate_data = filterHeartRate sd ed (heartRate_data (data entry)) \<rparr>"

text \<open>
  The reading of the claims: a day lies within \<open>[s, e]\<close>, both ends included; the date
  part of a timestamp is what precedes its first \<open>T\<close>.
\<close>

definition in_range :: "string \<Rightarrow> string \<Rightarrow> string \<Rightarrow> bool" where
  "in_range s e d \<longleftrightarrow> s \<le> d \<and> d \<le> e"

definition date_part :: "string \<Rightarrow> string" where
  "date_part ts = takeWhile (\<lambda>c. c \<noteq> CHR ''T'') ts"

text \<open>A cache entry and a cache used to run the cache operations on concrete data.\<close>

definition example_data :: "(nat, nat) OuraData" where
  "example_data =
     \<lparr> sleep_data = [\<lparr> day = Some ''2026-01-01'', payload = 1 \<rparr>,
                     \<lparr> day = Some ''2026-01-02'', payload = 2 \<rparr>,
                     \<lparr> day = Some ''2026-01-03'', payload = 3 \<rparr>,
                     \<lparr> day = Some ''2026-01-04'', payload = 4 \<rparr>],
       activity_data = [\<lparr> day = Some ''2026-01-03'', payload = 5 \<rparr>,
                        \<lparr> day = None, payload = 6 \<rparr>],
       readiness_data = [],
       heartRate_data =
         \<lparr> readings = [\<lparr> timestamp = Some ''2026-01-01T23:59:00+00:00'', bpm = 61, source = ''rest'' \<rparr>,
                        \<lparr> timestamp = Some ''2026-01-02T00:00:00+00:00'', bpm = 58, source = ''rest'' \<rparr>,
                        \<lparr> timestamp = None, bpm = 70, source = ''awake'' \<rparr>],
           dailyStats = [(''2026-01-01'', 61), (''2026-01-02'', 58)] \<rparr> \<rparr>"

definition example_entry :: "(nat, nat) CacheEntry" where
  "example_entry =
     \<lparr> startDate = ''2026-01-01'', endDate = ''2026-01-04'', data = example_data,
       includedTypes = \<lparr> sleep = True, activity = True, readiness = True, heartRate = True \<rparr>,
       timestamp_ms = 0 \<rparr>"

definition example_cache :: "(nat, nat) OuraCache" where
  "example_cache = \<lparr> cache = [''session-1'' \<mapsto> example_entry], TTL = 3600000 \<rparr>"

section \<open>Generation client (server/utils/gemini.ts)\<close>

text \<open>A thrown value: an object whose \<open>message\<close> may be missing.\<close>

datatype thrown = Thrown (message: "string option")

definition MODELS :: "string list" where
  "MODELS = [''gemini-3-flash-preview'', ''gemini-2.5-flash'']"

text \<open>
  The collaborators of \<open>generateWithRetry\<close>: the streaming call of the generative model
  and \<open>Math.random\<close>.  \<open>generateContentStream env n model thinkingLow contents\<close> is the
  outcome of the call number \<open>n\<close> (from 0) of one run: the stream, or the value thrown;
  \<open>thinkingLow\<close> tells whether the config asks for the low thinking level.
  \<open>random env n\<close> is the value of the call number \<open>n\<close> of \<open>Math.random()\<close>.
\<close>

record ('c, 's) ai_env =
  generateContentStream :: "nat \<Rightarrow> string \<Rightarrow> bool \<Rightarrow> 'c \<Rightarrow> thrown + 's"
  random :: "nat \<Rightarrow> real"

text \<open>What a run does: the models called, in order, and the delays waited for (ms).\<close>

record gen_log =
  calls :: "string list"
  delays :: "real list"

definition is429 :: "thrown \<Rightarrow> bool" where
  "is429 error =
     (case message error of
        None \<Rightarrow> False
      | Some m \<Rightarrow> includes_str m ''429'' \<or> includes_str m ''RESOURCE_EXHAUSTED'')"

text \<open>
  How the inner loop over \<open>attempt\<close> is left: by \<open>return stream\<close>, by \<open>throw error\<close>,
  or towards the next model (\<open>break\<close>, or \<open>attempt < maxRetries\<close> false).
\<close>

datatype 's attempt_exit = Returned 's | Threw thrown | NextModel

function attempts :: "('c, 's) ai_env \<Rightarrow> 'c \<Rightarrow> nat \<Rightarrow> string \<Rightarrow> nat \<Rightarrow> gen_log \<times> thrown option
                        \<Rightarrow> 's attempt_exit \<times> gen_log \<times> thrown option" where
  "attempts env contents maxRetries model attempt (trace, lastError) =
     (if attempt < maxRetries then
        (let thinkingLow = includes_str model ''gemini-3'';
             trace1 = trace\<lparr> calls := calls trace @ [model] \<rparr>
         in case generateContentStream env (length (calls trace)) model thinkingLow contents of
              Inr stream \<Rightarrow> (Returned stream, trace1, lastError)
            | Inl error \<Rightarrow>
                if is429 error \<and> int attempt < int maxRetries - 1 then
                  (let delay = 2 ^ attempt * 1000 + random env (length (delays trace1)) * 1000
                   in attempts env contents maxRetries model (attempt + 1)
                        (trace1\<lparr> delays := delays trace1 @ [delay] \<rparr>, Some error))
                else if is429 error then (NextModel, trace1, Some error)
                else (Threw error, trace1, Some error))
      else (NextModel, trace, lastError))"
  by pat_completeness auto
termination
  by (relation "measure (\<lambda>(env, contents, maxRetries, model, attempt, st). maxRetries - attempt)")
     auto

fun models_loop :: "('c, 's) ai_env \<Rightarrow> 'c \<Rightarrow> nat \<Rightarrow> string list \<Rightarrow> gen_log \<times> thrown option
                        \<Rightarrow> (thrown + 's) \<times> gen_log" where
  "models_loop env contents maxRetries [] (trace, lastError) =
     (Inl (case lastError of
             Some error \<Rightarrow> error
           | None \<Rightarrow> Thrown (Some ''All models failed'')), trace)"
| "models_loop env contents maxRetries (model # rest) (trace, lastError) =
     (case attempts env contents maxRetries model 0 (trace, lastError) of
        (Returned stream, trace', lastError') \<Rightarrow> (Inr stream, trace')
      | (Threw error, trace', lastError') \<Rightarrow> (Inl error, trace')
      | (NextModel, trace', lastError') \<Rightarrow> models_loop env contents maxRetries rest (trace', lastError'))"

definition generateWithRetry :: "('c, 's) ai_env \<Rightarrow> 'c \<Rightarrow> nat \<Rightarrow> (thrown + 's) \<times> gen_log" where
  "generateWithRetry env contents maxRetries =
     models_loop env contents maxRetries MODELS (\<lparr> calls = [], delays = [] \<rparr>, None)"

text \<open>The value of the parameter \<open>maxRetries\<close> when the caller gives none.\<close>

definition default_maxRetries :: nat where
  "default_maxRetries = 2"

text \<open>
  A run in which the primary model is rate limited on its first two calls and succeeds
  from then on (stream 1), the fallback model succeeds at once (stream 2), and every
  \<open>Math.random()\<close> is one half.
\<close>

definition rate_limited_twice :: "(unit, nat) ai_env" where
  "rate_limited_twice =
     \<lparr> generateContentStream =
         (\<lambda>n model thinkingLow contents.
            if model = ''gemini-3-flash-preview''
            then (if n < 2 then Inl (Thrown (Some ''got status: 429 Too Many Requests''))
                  else Inr 1)
            else Inr 2),
       random = (\<lambda>n. 1 / 2) \<rparr>"

text \<open>
  A run in which both models are rate limited: the primary model on the calls 0 and 1
  (it would succeed afterwards, stream 1), the fallback model on the call 2, with the
  other wording of the error; the fallback model succeeds from the call 3 on (stream 2).
  \<open>Math.random()\<close> is one half, then one quarter.
\<close>

definition both_rate_limited :: "(unit, nat) ai_env" where
  "both_rate_limited =
     \<lparr> generateContentStream =
         (\<lambda>n model thinkingLow contents.
            if model = ''gemini-3-flash-preview''
            then (if n < 2 then Inl (Thrown (Some ''got status: 429 Too Many Requests''))
                  else Inr 1)
            else (if n < 3 then Inl (Thrown (Some ''RESOURCE_EXHAUSTED''))
                  else Inr 2)),
       random = (\<lambda>n. if n = 0 then 1 / 2 else 1 / 4) \<rparr>"

section \<open>Regular expressions (the patterns of server/utils/date-range.ts)\<close>

text \<open>
  The patterns use literals, the classes \<open>\d\<close>, \<open>\s\<close> and \<open>[\s\S]\<close>, greedy
  repetition of a class, \<open>?\<close>, sequence, alternation, \<open>\b\<close> and capturing groups.
  A matcher returns the states in which a match of the pattern may end, in the order in
  which a backtracking matcher tries them: the first alternative first, the longest
  repetition first.  The first state of the list is the match that \<open>match\<close> and
  \<open>test\<close> find at a start position.
\<close>

datatype cclass = Digit | Space | AnyChar

fun in_class :: "cclass \<Rightarrow> char \<Rightarrow> bool" where
  "in_class Digit c = (48 \<le> (of_char c :: nat) \<and> (of_char c :: nat) \<le> 57)"
| "in_class Space c = ((of_char c :: nat) \<in> {9, 10, 11, 12, 13, 32, 160})"
| "in_class AnyChar c = True"

text \<open>\<open>\w\<close>: an ASCII letter, a digit or the underscore.\<close>

definition is_word_char :: "char \<Rightarrow> bool" where
  "is_word_char c =
     (let n = (of_char c :: nat)
      in (48 \<le> n \<and> n \<le> 57) \<or> (65 \<le> n \<and> n \<le> 90) \<or> n = 95 \<or> (97 \<le> n \<and> n \<le> 122))"

datatype regex =
    Lit string
  | Rep cclass nat "nat option"
  | Opt regex
  | Seq regex regex
  | Alt regex regex
  | WordBoundary
  | Group regex

text \<open>
  A position of the matcher: the character before it (none at the start of the text), the
  text from it on, and the texts captured so far, in the order the groups closed.
\<close>

record rx_state =
  prev_char :: "char option"
  rest :: string
  captures :: "string list"

definition advance :: "nat \<Rightarrow> rx_state \<Rightarrow> rx_state" where
  "advance k st =
     st\<lparr> prev_char := (if k = 0 then prev_char st else Some (rest st ! (k - 1))),
         rest := drop k (rest st) \<rparr>"

text \<open>
  With the flag \<open>i\<close>, a character of the text matches a lower-case ASCII letter of a
  pattern when its own lower-case form is that letter; among the characters below 256
  these are the letter and its capital.
\<close>

definition ascii_lower :: "char \<Rightarrow> char" where
  "ascii_lower c =
     (let n = (of_char c :: nat) in if 65 \<le> n \<and> n \<le> 90 then char_of (n + 32) else c)"

definition same_text :: "bool \<Rightarrow> string \<Rightarrow> string \<Rightarrow> bool" where
  "same_text ignoreCase txt lit = ((if ignoreCase then map ascii_lower txt else txt) = lit)"

definition at_boundary :: "rx_state \<Rightarrow> bool" where
  "at_boundary st =
     ((case prev_char st of None \<Rightarrow> False | Some c \<Rightarrow> is_word_char c)
      \<noteq> (case rest st of [] \<Rightarrow> False | c # cs \<Rightarrow> is_word_char c))"

fun rx_match :: "bool \<Rightarrow> regex \<Rightarrow> rx_state \<Rightarrow> rx_state list" where
  "rx_match ic (Lit l) st =
     (if length l \<le> length (rest st) \<and> same_text ic (take (length l) (rest st)) l
      then [advance (length l) st] else [])"
| "rx_match ic (Rep c lo hi) st =
     (let run = length (takeWhile (in_class c) (rest st));
          most = (case hi of None \<Rightarrow> run | Some h \<Rightarrow> min run h)
      in map (\<lambda>k. advance k st) (rev [lo ..< Suc most]))"
| "rx_match ic (Opt r) st = rx_match ic r st @ [st]"
| "rx_match ic (Seq r1 r2) st = concat (map (rx_match ic r2) (rx_match ic r1 st))"
| "rx_match ic (Alt r1 r2) st = rx_match ic r1 st @ rx_match ic r2 st"
| "rx_match ic WordBoundary st = (if at_boundary st then [st] else [])"
| "rx_match ic (Group r) st =
     map (\<lambda>st'. st'\<lparr> captures := captures st'
                       @ [take (length (rest st) - length (rest st')) (rest st)] \<rparr>)
         (rx_match ic r st)"

text \<open>
  \<open>text.match(pattern)\<close>: the captures of the first match at the leftmost position that
  has one, or none.  \<open>prev\<close> is the character before the text.
\<close>

fun rx_search :: "bool \<Rightarrow> regex \<Rightarrow> char option \<Rightarrow> string \<Rightarrow> string list option" where
  "rx_search ic r prev txt =
     (case rx_match ic r \<lparr> prev_char = prev, rest = txt, captures = [] \<rparr> of
        st # sts \<Rightarrow> Some (captures st)
      | [] \<Rightarrow> (case txt of
                 [] \<Rightarrow> None
               | c # cs \<Rightarrow> rx_search ic r (Some c) cs))"

definition match_rx :: "regex \<Rightarrow> string \<Rightarrow> string list option" where
  "match_rx r txt = rx_search False r None txt"

definition test_rx :: "bool \<Rightarrow> regex \<Rightarrow> string \<Rightarrow> bool" where
  "test_rx ic r txt = (rx_search ic r None txt \<noteq> None)"

text \<open>Sequences and alternations of more than two patterns.\<close>

fun seqs :: "regex list \<Rightarrow> regex" where
  "seqs [] = Lit []"
| "seqs [r] = r"
| "seqs (r # rs) = Seq r (seqs rs)"

fun alts :: "regex list \<Rightarrow> regex" where
  "alts [] = Lit []"
| "alts [r] = r"
| "alts (r # rs) = Alt r (alts rs)"

text \<open>\<open>\d{4}-\d{2}-\d{2}\<close>\<close>

definition rx_date :: regex where
  "rx_date = seqs [Rep Digit 4 (Some 4), Lit ''-'', Rep Digit 2 (Some 2), Lit ''-'',
                   Rep Digit 2 (Some 2)]"

text \<open>\<open>/(\d{4}-\d{2}-\d{2})\s*(to|-)\s*(\d{4}-\d{2}-\d{2})/\<close>\<close>

definition rx_range :: regex where
  "rx_range = seqs [Group rx_date, Rep Space 0 None, Group (Alt (Lit ''to'') (Lit ''-'')),
                    Rep Space 0 None, Group rx_date]"

text \<open>\<open>/\b(\d{4}-\d{2}-\d{2})\b/\<close>\<close>

definition rx_single_date :: regex where
  "rx_single_date = seqs [WordBoundary, Group rx_date, WordBoundary]"

text \<open>\<open>/\b(today)\b/\<close>\<close>

definition rx_today :: regex where
  "rx_today = seqs [WordBoundary, Group (Lit ''today''), WordBoundary]"

text \<open>\<open>/\b(yesterday|last night)\b/\<close>\<close>

definition rx_yesterday :: regex where
  "rx_yesterday =
     seqs [WordBoundary, Group (Alt (Lit ''yesterday'') (Lit ''last night'')), WordBoundary]"

text \<open>\<open>/\b(last|past|previous)\s+(\d+)\s+(days?|weeks?|months?|years?)\b/\<close>\<close>

definition rx_relative :: regex where
  "rx_relative =
     seqs [WordBoundary, Group (alts [Lit ''last'', Lit ''past'', Lit ''previous'']),
           Rep Space 1 None, Group (Rep Digit 1 None), Rep Space 1 None,
           Group (alts [Seq (Lit ''day'') (Opt (Lit ''s'')), Seq (Lit ''week'') (Opt (Lit ''s'')),
                        Seq (Lit ''month'') (Opt (Lit ''s'')), Seq (Lit ''year'') (Opt (Lit ''s''))]),
           WordBoundary]"

text \<open>\<open>/\bthis\s+week\b/\<close> and its like: two words separated by white space.\<close>

definition rx_two_words :: "string \<Rightarrow> string \<Rightarrow> regex" where
  "rx_two_words w1 w2 = seqs [WordBoundary, Lit w1, Rep Space 1 None, Lit w2, WordBoundary]"

text \<open>\<open>/\b(20\d{2})\b/\<close>\<close>

definition rx_year :: regex where
  "rx_year = seqs [WordBoundary, Group (Seq (Lit ''20'') (Rep Digit 2 (Some 2))), WordBoundary]"

text \<open>
  \<open>DATE_PATTERNS\<close>, each with its flag \<open>i\<close>: the patterns without the flag contain no
  letter.
\<close>

definition DATE_PATTERNS :: "(bool \<times> regex) list" where
  "DATE_PATTERNS =
     [(True, seqs [WordBoundary,
                   Group (alts [Lit ''january'', Lit ''february'', Lit ''march'', Lit ''april'',
                                Lit ''may'', Lit ''june'', Lit ''july'', Lit ''august'',
                                Lit ''september'', Lit ''october'', Lit ''november'',
                                Lit ''december'']),
                   Rep Space 1 None, Rep Digit 4 (Some 4), WordBoundary]),
      (True, rx_relative),
      (True, seqs [WordBoundary,
                   Group (alts [Lit ''this'', Lit ''last'', Lit ''past'', Lit ''previous'']),
                   Rep Space 1 None,
                   Group (alts [Lit ''week'', Lit ''month'', Lit ''year'']), WordBoundary]),
      (False, seqs [WordBoundary, rx_date, WordBoundary]),
      (True, seqs [WordBoundary,
                   Group (alts [Lit ''jan'', Lit ''feb'', Lit ''mar'', Lit ''apr'', Lit ''may'',
                                Lit ''jun'', Lit ''jul'', Lit ''aug'', Lit ''sep'', Lit ''oct'',
                                Lit ''nov'', Lit ''dec'']),
                   Rep Space 1 None, Rep Digit 1 (Some 2)]),
      (False, seqs [WordBoundary, Lit ''20'', Rep Digit 2 (Some 2), WordBoundary]),
      (True, seqs [WordBoundary, Group (Alt (Lit ''year'') (Lit ''yr'')), WordBoundary])]"

text \<open>\<open>/\{[\s\S]*\}/\<close>, whose match is the whole matched text.\<close>

definition rx_json_object :: regex where
  "rx_json_object = Group (seqs [Lit ''{'', Rep AnyChar 0 None, Lit ''}''])"

section \<open>Dates (the \<open>Date\<close> objects of the runtime)\<close>

text \<open>
  A \<open>Date\<close> holds a time value, a whole number of milliseconds since 1970-01-01T00:00Z
  of absolute value at most 8.64e15, or \<open>NaN\<close> (an invalid date), here \<open>None\<close>.  A number
  that may be \<open>NaN\<close> is an \<^typ>\<open>int option\<close> as well.  The calendar functions are those of
  the language definition.  The process is taken to run in the time zone UTC, so local
  time is UTC.
\<close>

type_synonym Date = "int option"

definition msPerDay :: int where
  "msPerDay = 86400000"

definition LocalTZA :: int where
  "LocalTZA = 0"

definition LocalTime :: "int \<Rightarrow> int" where
  "LocalTime t = t + LocalTZA"

definition UTC :: "int \<Rightarrow> int" where
  "UTC t = t - LocalTZA"

definition TimeClip :: "int \<Rightarrow> Date" where
  "TimeClip t = (if \<bar>t\<bar> > 8640000000000000 then None else Some t)"

definition Day :: "int \<Rightarrow> int" where
  "Day t = t div msPerDay"

definition TimeWithinDay :: "int \<Rightarrow> int" where
  "TimeWithinDay t = t mod msPerDay"

definition DayFromYear :: "int \<Rightarrow> int" where
  "DayFromYear y =
     365 * (y - 1970) + (y - 1969) div 4 - (y - 1901) div 100 + (y - 1601) div 400"

definition leap_days :: "int \<Rightarrow> int" where
  "leap_days y = (if y mod 4 = 0 \<and> (y mod 100 \<noteq> 0 \<or> y mod 400 = 0) then 1 else 0)"

text \<open>
  The year of a day number: the largest \<open>y\<close> with \<open>DayFromYear y \<le> d\<close>, found from the
  mean length of a year and corrected by one year where needed.
\<close>

definition year_near :: "int \<Rightarrow> int \<Rightarrow> int" where
  "year_near d y0 =
     (if DayFromYear y0 > d then y0 - 1
      else if DayFromYear (y0 + 1) \<le> d then y0 + 1
      else y0)"

definition YearFromDay :: "int \<Rightarrow> int" where
  "YearFromDay d = year_near d (1970 + (d * 400) div 146097)"

definition YearFromTime :: "int \<Rightarrow> int" where
  "YearFromTime t = YearFromDay (Day t)"

definition DayWithinYear :: "int \<Rightarrow> int" where
  "DayWithinYear t = Day t - DayFromYear (YearFromTime t)"

definition InLeapYear :: "int \<Rightarrow> int" where
  "InLeapYear t = leap_days (YearFromTime t)"

text \<open>The number of days of a year before its month \<open>m\<close> (from 0), \<open>l\<close> its leap days.\<close>

definition month_start :: "int \<Rightarrow> int \<Rightarrow> int" where
  "month_start l m =
     (if m = 0 then 0 else if m = 1 then 31 else if m = 2 then 59 + l
      else if m = 3 then 90 + l else if m = 4 then 120 + l else if m = 5 then 151 + l
      else if m = 6 then 181 + l else if m = 7 then 212 + l else if m = 8 then 243 + l
      else if m = 9 then 273 + l else if m = 10 then 304 + l else 334 + l)"

text \<open>The month (from 0) of the day \<open>d\<close> (from 0) of a year with \<open>l\<close> leap days.\<close>

definition month_of_day :: "int \<Rightarrow> int \<Rightarrow> int" where
  "month_of_day d l =
     (if d < 31 then 0 else if d < 59 + l then 1 else if d < 90 + l then 2
      else if d < 120 + l then 3 else if d < 151 + l then 4 else if d < 181 + l then 5
      else if d < 212 + l then 6 else if d < 243 + l then 7 else if d < 273 + l then 8
      else if d < 304 + l then 9 else if d < 334 + l then 10 else 11)"

definition MonthFromTime :: "int \<Rightarrow> int" where
  "MonthFromTime t = month_of_day (DayWithinYear t) (InLeapYear t)"

definition DateFromTime :: "int \<Rightarrow> int" where
  "DateFromTime t = DayWithinYear t - month_start (InLeapYear t) (MonthFromTime t) + 1"

text \<open>The day number of the day \<open>dt\<close> of the month \<open>mn\<close> (from 0) of the year \<open>ym\<close>.\<close>

definition day_of_ymd :: "int \<Rightarrow> int \<Rightarrow> int \<Rightarrow> int" where
  "day_of_ymd ym mn dt = DayFromYear ym + month_start (leap_days ym) mn + dt - 1"

definition MakeDay :: "int \<Rightarrow> int \<Rightarrow> int \<Rightarrow> int" where
  "MakeDay year month dt = day_of_ymd (year + month div 12) (month mod 12) dt"

definition MakeDate :: "int \<Rightarrow> int \<Rightarrow> int" where
  "MakeDate d time = d * msPerDay + time"

text \<open>\<open>new Date()\<close> at the clock reading \<open>now\<close>, \<open>new Date(value)\<close>, \<open>new Date(date)\<close>.\<close>

definition new_Date_now :: "int \<Rightarrow> Date" where
  "new_Date_now now = TimeClip now"

definition new_Date_value :: "int option \<Rightarrow> Date" where
  "new_Date_value v = Option.bind v TimeClip"

definition new_Date_copy :: "Date \<Rightarrow> Date" where
  "new_Date_copy d = d"

text \<open>\<open>new Date(year, month, date)\<close>: a year from 0 to 99 stands for 1900 + year.\<close>

definition full_year :: "int \<Rightarrow> int" where
  "full_year y = (if 0 \<le> y \<and> y \<le> 99 then 1900 + y else y)"

definition new_Date_ymd :: "int option \<Rightarrow> int option \<Rightarrow> int option \<Rightarrow> Date" where
  "new_Date_ymd year month dt =
     (case (year, month, dt) of
        (Some y, Some m, Some d) \<Rightarrow> TimeClip (UTC (MakeDate (MakeDay (full_year y) m d) 0))
      | _ \<Rightarrow> None)"

definition getTime :: "Date \<Rightarrow> int option" where
  "getTime d = d"

definition getFullYear :: "Date \<Rightarrow> int option" where
  "getFullYear d = (case d of None \<Rightarrow> None | Some t \<Rightarrow> Some (YearFromTime (LocalTime t)))"

definition getMonth :: "Date \<Rightarrow> int option" where
  "getMonth d = (case d of None \<Rightarrow> None | Some t \<Rightarrow> Some (MonthFromTime (LocalTime t)))"

definition getDate :: "Date \<Rightarrow> int option" where
  "getDate d = (case d of None \<Rightarrow> None | Some t \<Rightarrow> Some (DateFromTime (LocalTime t)))"

text \<open>\<open>d.setDate(dt)\<close>: the new value of \<open>d\<close>.\<close>

definition set_date_of_time :: "int \<Rightarrow> int \<Rightarrow> int" where
  "set_date_of_time t n = MakeDate (MakeDay (YearFromTime t) (MonthFromTime t) n) (TimeWithinDay t)"

definition setDate :: "Date \<Rightarrow> int option \<Rightarrow> Date" where
  "setDate d dt =
     (case (d, dt) of
        (Some tv, Some n) \<Rightarrow> TimeClip (UTC (set_date_of_time (LocalTime tv) n))
      | _ \<Rightarrow> None)"

definition digit_char :: "int \<Rightarrow> char" where
  "digit_char n = char_of (48 + nat (n mod 10))"

definition pad2 :: "int \<Rightarrow> string" where
  "pad2 n = [digit_char (n div 10), digit_char n]"

definition pad3 :: "int \<Rightarrow> string" where
  "pad3 n = [digit_char (n div 100), digit_char (n div 10), digit_char n]"

definition pad4 :: "int \<Rightarrow> string" where
  "pad4 n = [digit_char (n div 1000), digit_char (n div 100), digit_char (n div 10), digit_char n]"

definition pad6 :: "int \<Rightarrow> string" where
  "pad6 n = [digit_char (n div 100000), digit_char (n div 10000), digit_char (n div 1000),
             digit_char (n div 100), digit_char (n div 10), digit_char n]"

definition RangeError_invalid_time :: thrown where
  "RangeError_invalid_time = Thrown (Some ''Invalid time value'')"

text \<open>
  \<open>d.toISOString()\<close>: throws a \<open>RangeError\<close> on an invalid date; a year outside 0..9999 is
  written with a sign and six digits.
\<close>

definition year_text :: "int \<Rightarrow> string" where
  "year_text y =
     (if 0 \<le> y \<and> y \<le> 9999 then pad4 y
      else (if y < 0 then ''-'' else ''+'') @ pad6 \<bar>y\<bar>)"

definition time_text :: "int \<Rightarrow> string" where
  "time_text ms =
     pad2 (ms div 3600000) @ '':'' @ pad2 (ms div 60000 mod 60) @ '':''
     @ pad2 (ms div 1000 mod 60) @ ''.'' @ pad3 (ms mod 1000)"

definition toISOString :: "Date \<Rightarrow> thrown + string" where
  "toISOString d =
     (case d of
        None \<Rightarrow> Inl RangeError_invalid_time
      | Some t \<Rightarrow>
          Inr (year_text (YearFromTime t) @ ''-'' @ pad2 (MonthFromTime t + 1) @ ''-''
               @ pad2 (DateFromTime t) @ ''T'' @ time_text (TimeWithinDay t) @ ''Z''))"

text \<open>\<open>s.split("T")[0]\<close>\<close>

definition split_T_0 :: "string \<Rightarrow> string" where
  "split_T_0 s = (case split_str (CHR ''T'') s of [] \<Rightarrow> [] | piece # pieces \<Rightarrow> piece)"

definition formatDate :: "Date \<Rightarrow> thrown + string" where
  "formatDate d = (case toISOString d of Inl err \<Rightarrow> Inl err | Inr isoText \<Rightarrow> Inr (split_T_0 isoText))"

section \<open>Date range resolver (server/utils/date-range.ts)\<close>

text \<open>
  \<open>Number(digits)\<close> for a text of decimal digits, as an exact integer.  (A double is exact
  up to \<open>2^53\<close>; beyond, it stays so large that every date computed from it is invalid,
  as it is with the exact integer.)
\<close>

definition Number_of_digits :: "string \<Rightarrow> int" where
  "Number_of_digits ds = foldl (\<lambda>acc c. acc * 10 + (int (of_char c) - 48)) 0 ds"

definition minus_num :: "int option \<Rightarrow> int \<Rightarrow> int option" where
  "minus_num a b = map_option (\<lambda>x. x - b) a"

definition toRange :: "Date \<Rightarrow> Date \<Rightarrow> thrown + DateRange" where
  "toRange start endD =
     (case formatDate start of
        Inl err \<Rightarrow> Inl err
      | Inr s \<Rightarrow>
          (case formatDate endD of
             Inl err \<Rightarrow> Inl err
           | Inr e \<Rightarrow> Inr \<lparr> startDate = s, endDate = e, usesCustomRange = True \<rparr>))"

definition found :: "thrown + DateRange \<Rightarrow> thrown + DateRange option" where
  "found r = (case r of Inl err \<Rightarrow> Inl err | Inr rng \<Rightarrow> Inr (Some rng))"

text \<open>
  A match of \<open>rx_range\<close> and of \<open>rx_relative\<close> has three groups, one of \<open>rx_single_date\<close>
  and of \<open>rx_year\<close> has one: the group \<open>m[i]\<close> of a match is \<open>m ! (i - 1)\<close>.
\<close>

definition parseDateRangeFromQuery :: "string \<Rightarrow> Date \<Rightarrow> thrown + DateRange option" where
  "parseDateRangeFromQuery query today =
     (let q = toLowerCase query
      in case formatDate today of
           Inl err \<Rightarrow> Inl err
         | Inr todayStr \<Rightarrow>
      (case match_rx rx_range q of
         Some rangeMatch \<Rightarrow>
           Inr (Some \<lparr> startDate = rangeMatch ! 0, endDate = rangeMatch ! 2,
                       usesCustomRange = True \<rparr>)
       | None \<Rightarrow>
      (case match_rx rx_single_date q of
         Some singleDateMatch \<Rightarrow>
           Inr (Some \<lparr> startDate = singleDateMatch ! 0, endDate = singleDateMatch ! 0,
                       usesCustomRange = True \<rparr>)
       | None \<Rightarrow>
      if test_rx False rx_today q then
        Inr (Some \<lparr> startDate = todayStr, endDate = todayStr, usesCustomRange = True \<rparr>)
      else if test_rx False rx_yesterday q then
        (let date = new_Date_copy today;
             date = setDate date (minus_num (getDate date) 1)
         in case formatDate date of
              Inl err \<Rightarrow> Inl err
            | Inr d \<Rightarrow> Inr (Some \<lparr> startDate = d, endDate = d, usesCustomRange = True \<rparr>))
      else
      (case match_rx rx_relative q of
         Some relativeMatch \<Rightarrow>
           (let amount = Number_of_digits (relativeMatch ! 1);
                unitText = relativeMatch ! 2;
                days = amount;
                days = (if prefix ''week'' unitText then amount * 7 else days);
                days = (if prefix ''month'' unitText then amount * 30 else days);
                days = (if prefix ''year'' unitText then amount * 365 else days);
                start = new_Date_copy today;
                start = setDate start (minus_num (getDate start) days)
            in found (toRange start today))
       | None \<Rightarrow>
      if test_rx False (rx_two_words ''this'' ''week'') q
         \<or> test_rx False (rx_two_words ''last'' ''week'') q then
        (let start = new_Date_copy today;
             start = setDate start (minus_num (getDate start) 7)
         in found (toRange start today))
      else if test_rx False (rx_two_words ''this'' ''month'') q then
        (let start = new_Date_ymd (getFullYear today) (getMonth today) (Some 1)
         in found (toRange start today))
      else if test_rx False (rx_two_words ''last'' ''month'') q then
        (let start = new_Date_ymd (getFullYear today) (minus_num (getMonth today) 1) (Some 1);
             endD = new_Date_ymd (getFullYear today) (getMonth today) (Some 0)
         in found (toRange start endD))
      else if test_rx False (rx_two_words ''this'' ''year'') q then
        (let start = new_Date_ymd (getFullYear today) (Some 0) (Some 1)
         in found (toRange start today))
      else if test_rx False (rx_two_words ''last'' ''year'') q then
        (let start = new_Date_ymd (minus_num (getFullYear today) 1) (Some 0) (Some 1);
             endD = new_Date_ymd (minus_num (getFullYear today) 1) (Some 11) (Some 31)
         in found (toRange start endD))
      else
      (case match_rx rx_year q of
         Some yearMatch \<Rightarrow>
           (let year = Number_of_digits (yearMatch ! 0);
                start = new_Date_ymd (Some year) (Some 0) (Some 1);
                endD = new_Date_ymd (Some year) (Some 11) (Some 31)
            in found (toRange start endD))
       | None \<Rightarrow> Inr None)))))"

text \<open>\<open>s.trim()\<close>\<close>

definition trim :: "string \<Rightarrow> string" where
  "trim s = rev (dropWhile (in_class Space) (rev (dropWhile (in_class Space) s)))"

text \<open>
  The collaborators of the AI date extraction.  \<open>extraction_reply ai todayStr query\<close> is
  the outcome of the streaming call with the extraction prompt built from \<open>todayStr\<close>
  and \<open>query\<close>: the concatenated text of the chunks, or the value thrown by the call or
  by the iteration.  \<open>JSON_parse ai text\<close> is the outcome of \<open>JSON.parse(text)\<close> as far as
  the code reads it: the value thrown, or the properties \<open>startDate\<close> and \<open>endDate\<close> of
  the object (\<open>None\<close> when missing); a property that is present is taken to be a string.
\<close>

record date_ai =
  extraction_reply :: "string \<Rightarrow> string \<Rightarrow> thrown + string"
  JSON_parse :: "string \<Rightarrow> thrown + (string option \<times> string option)"

text \<open>
  A value read from the parsed object is truthy when it is present and not the empty
  string.
\<close>

definition truthy_str :: "string option \<Rightarrow> bool" where
  "truthy_str v = (case v of None \<Rightarrow> False | Some s \<Rightarrow> s \<noteq> [])"

definition extractDateRange :: "string \<Rightarrow> date_ai \<Rightarrow> int \<Rightarrow> thrown + DateRange" where
  "extractDateRange query ai now =
     (let today = new_Date_now now
      in case formatDate today of
           Inl err \<Rightarrow> Inl err
         | Inr todayStr \<Rightarrow>
      (case toISOString (new_Date_value (minus_num (getTime today) (7 * 24 * 60 * 60 * 1000))) of
         Inl err \<Rightarrow> Inl err
       | Inr weekAgo \<Rightarrow>
      (let defaultRange = \<lparr> startDate = split_T_0 weekAgo, endDate = todayStr,
                             usesCustomRange = False \<rparr>
       in case parseDateRangeFromQuery query today of
            Inl err \<Rightarrow> Inl err
          | Inr (Some parsedRange) \<Rightarrow>
              if startDate parsedRange > endDate parsedRange then
                Inr \<lparr> startDate = endDate parsedRange, endDate = startDate parsedRange,
                      usesCustomRange = True \<rparr>
              else
                Inr (parsedRange\<lparr> endDate := (if endDate parsedRange > todayStr then todayStr
                                                 else endDate parsedRange) \<rparr>)
          | Inr None \<Rightarrow>
              (let hasDateReference = list_ex (\<lambda>(ic, pattern). test_rx ic pattern query) DATE_PATTERNS
               in if \<not> hasDateReference then Inr defaultRange
                  else
                    (case extraction_reply ai todayStr query of
                       Inl err \<Rightarrow> Inr defaultRange
                     | Inr fullText \<Rightarrow>
                    (case match_rx rx_json_object (trim fullText) of
                       None \<Rightarrow> Inr defaultRange
                     | Some jsonMatch \<Rightarrow>
                    (case JSON_parse ai (jsonMatch ! 0) of
                       Inl err \<Rightarrow> Inr defaultRange
                     | Inr (Some startDate0, Some endDate0) \<Rightarrow>
                         if startDate0 \<noteq> [] \<and> endDate0 \<noteq> [] then
                           (let (startDate1, endDate1) =
                                   (if startDate0 > endDate0 then (endDate0, startDate0)
                                    else (startDate0, endDate0));
                                endDate2 = (if endDate1 > todayStr then todayStr else endDate1)
                            in Inr \<lparr> startDate = startDate1, endDate = endDate2,
                                     usesCustomRange = True \<rparr>)
                         else Inr defaultRange
                     | Inr _ \<Rightarrow> Inr defaultRange)))))))"

text \<open>
  A clock reading, 2026-11-02T12:00:00Z, and an AI that is never reached in the runs below
  (its call throws).
\<close>

definition clock_2026_11_02 :: int where
  "clock_2026_11_02 = 1793620800000"

definition failing_ai :: date_ai where
  "failing_ai =
     \<lparr> extraction_reply = (\<lambda>todayStr query. Inl (Thrown (Some ''fetch failed''))),
       JSON_parse = (\<lambda>txt. Inl (Thrown (Some ''Unexpected token''))) \<rparr>"

text \<open>
  The clock readings at which neither \<open>today\<close> nor the start of the default range, seven
  days earlier, falls outside the range of time values.
\<close>

definition clock_ok :: "int \<Rightarrow> bool" where
  "clock_ok now \<longleftrightarrow> - 8640000000000000 + 604800000 \<le> now \<and> now \<le> 8640000000000000"

section \<open>Data fetch (server/oura.ts)\<close>

text \<open>
  A daily statistic of the heart rate.  \<open>min\<close> and \<open>max\<close> start at plus and minus
  infinity.
\<close>

datatype jsnum = Num int | PosInfinity | NegInfinity | NaN

record daily_stat =
  stat_readings :: "reading list"
  stat_min :: jsnum
  stat_max :: jsnum
  stat_avg :: jsnum

text \<open>
  The requests to the Oura API, one per category, by day count and by date range.  Each of
  them catches its own errors and returns an empty result then, so none throws.
\<close>

record 'p oura_api =
  getSleepData :: "int \<Rightarrow> 'p item list"
  getActivityData :: "int \<Rightarrow> 'p item list"
  getReadinessData :: "int \<Rightarrow> 'p item list"
  getHeartRateData :: "int \<Rightarrow> daily_stat HeartRateResult"
  getSleepDataByDateRange :: "string \<Rightarrow> string \<Rightarrow> 'p item list"
  getActivityDataByDateRange :: "string \<Rightarrow> string \<Rightarrow> 'p item list"
  getReadinessDataByDateRange :: "string \<Rightarrow> string \<Rightarrow> 'p item list"
  getHeartRateDataByDateRange :: "string \<Rightarrow> string \<Rightarrow> daily_stat HeartRateResult"

definition no_data :: "('p, daily_stat) OuraData" where
  "no_data = \<lparr> sleep_data = [], activity_data = [], readiness_data = [],
               heartRate_data = \<lparr> readings = [], dailyStats = [] \<rparr> \<rparr>"

definition getAllOuraData :: "'p oura_api \<Rightarrow> bool \<Rightarrow> int \<Rightarrow> ('p, daily_stat) OuraData" where
  "getAllOuraData api isConn days =
     (if \<not> isConn then no_data
      else \<lparr> sleep_data = getSleepData api days,
             activity_data = getActivityData api days,
             readiness_data = getReadinessData api days,
             heartRate_data = getHeartRateData api days \<rparr>)"

definition getAllOuraDataByDateRange ::
    "'p oura_api \<Rightarrow> bool \<Rightarrow> string \<Rightarrow> string \<Rightarrow> DataTypeFlags \<Rightarrow> ('p, daily_stat) OuraData" where
  "getAllOuraDataByDateRange api isConn sd ed include =
     (if \<not> isConn then no_data
      else \<lparr> sleep_data = (if sleep include then getSleepDataByDateRange api sd ed else []),
             activity_data = (if activity include then getActivityDataByDateRange api sd ed else []),
             readiness_data = (if readiness include then getReadinessDataByDateRange api sd ed else []),
             heartRate_data = (if heartRate include then getHeartRateDataByDateRange api sd ed
                               else \<lparr> readings = [], dailyStats = [] \<rparr>) \<rparr>)"

section \<open>Query route (server/routes/query.ts, the second module of the file data.ts)\<close>

record hr_summary =
  summary_day :: string
  summary_min :: "jsnum option"
  summary_max :: "jsnum option"
  summary_avg :: "jsnum option"

text \<open>\<open>stats.avg || null\<close>: zero and \<open>NaN\<close> are falsy.\<close>

definition heartRateSummary :: "(string \<times> daily_stat) list \<Rightarrow> hr_summary list" where
  "heartRateSummary entries =
     map (\<lambda>(d, stats).
            \<lparr> summary_day = d,
              summary_min = (if stat_min stats = PosInfinity then None else Some (stat_min stats)),
              summary_max = (if stat_max stats = NegInfinity then None else Some (stat_max stats)),
              summary_avg = (if stat_avg stats = Num 0 \<or> stat_avg stats = NaN then None
                             else Some (stat_avg stats)) \<rparr>) entries"

text \<open>\<open>JSON.stringify\<close> of the arrays of items and of the heart-rate summary.\<close>

record 'p json_text =
  stringify_items :: "'p item list \<Rightarrow> string"
  stringify_summary :: "hr_summary list \<Rightarrow> string"

definition newline :: string where
  "newline = [CHR 0x0A]"

definition apostrophe :: string where
  "apostrophe = [CHR 0x27]"

definition buildDataSections :: "'p json_text \<Rightarrow> ('p, daily_stat) OuraData \<Rightarrow> DataTypeFlags \<Rightarrow> string" where
  "buildDataSections js ouraData dataTypes =
     (if sleep dataTypes
      then newline @ ''SLEEP DATA:'' @ newline @ stringify_items js (sleep_data ouraData) else [])
     @ (if activity dataTypes
        then newline @ ''ACTIVITY DATA:'' @ newline @ stringify_items js (activity_data ouraData)
        else [])
     @ (if readiness dataTypes
        then newline @ ''READINESS DATA:'' @ newline @ stringify_items js (readiness_data ouraData)
        else [])
     @ (if heartRate dataTypes
        then newline @ ''HEART RATE DAILY SUMMARY (min/max/avg bpm per day):'' @ newline
             @ stringify_summary js (heartRateSummary (dailyStats (heartRate_data ouraData)))
        else [])"

definition buildSystemContext :: "string \<Rightarrow> string \<Rightarrow> string" where
  "buildSystemContext dateRangeDescription dataSections =
     ''You are a helpful health assistant that analyzes Oura ring data.'' @ newline
     @ ''You have access to the user'' @ apostrophe
     @ ''s sleep, activity, readiness, and heart rate data from their Oura ring.'' @ newline
     @ ''Provide insightful, personalized responses based on the data.'' @ newline
     @ ''Be conversational and supportive. Use specific numbers and dates from the data.''
     @ newline
     @ ''If asked about trends, compare recent days. If asked about specific metrics, explain what they mean.''
     @ newline
     @ ''Keep responses concise but informative. Use plain language.'' @ newline @ newline
     @ ''Here is the user'' @ apostrophe @ ''s Oura data '' @ dateRangeDescription @ '':''
     @ newline @ dataSections"

datatype turn_role = UserTurn | ModelTurn

type_synonym ConversationTurn = "turn_role \<times> string"

text \<open>\<open>xs.slice(-n)\<close>: the last \<open>n\<close> elements.\<close>

definition slice_last :: "nat \<Rightarrow> 'a list \<Rightarrow> 'a list" where
  "slice_last n xs = drop (length xs - n) xs"

text \<open>A prior turn is its role and its content; no history is the empty list.\<close>

definition buildStreamInput ::
    "string \<Rightarrow> string \<Rightarrow> (string \<times> string) list \<Rightarrow> string + ConversationTurn list" where
  "buildStreamInput query systemContext conversationHistory =
     (if length conversationHistory > 0 then
        Inr ([(UserTurn, systemContext @ newline @ newline
                         @ ''Please use the above data context for this conversation.''),
              (ModelTurn, ''I have the Oura data ready. I'' @ apostrophe
                          @ ''ll use it to answer your questions about your health metrics.'')]
             @ map (\<lambda>(role, content). (if role = ''assistant'' then ModelTurn else UserTurn, content))
                   (slice_last 10 conversationHistory)
             @ [(UserTurn, query)])
      else
        Inl (systemContext @ newline @ newline @ ''USER QUESTION: '' @ query @ newline @ newline
             @ ''Please analyze the data and answer the user'' @ apostrophe @ ''s question.''))"

text \<open>The payload of the final event: a key is present when its category is relevant.\<close>

record 'p relevant_data =
  payload_sleep :: "'p item list option"
  payload_activity :: "'p item list option"
  payload_readiness :: "'p item list option"
  payload_heartRate :: "hr_summary list option"

definition buildRelevantDataPayload ::
    "('p, daily_stat) OuraData \<Rightarrow> DataTypeFlags \<Rightarrow> 'p relevant_data option" where
  "buildRelevantDataPayload ouraData dataTypes =
     (let relevantData =
            \<lparr> payload_sleep = (if sleep dataTypes then Some (sleep_data ouraData) else None),
              payload_activity = (if activity dataTypes then Some (activity_data ouraData) else None),
              payload_readiness = (if readiness dataTypes then Some (readiness_data ouraData) else None),
              payload_heartRate =
                (if heartRate dataTypes
                 then Some (heartRateSummary (dailyStats (heartRate_data ouraData))) else None) \<rparr>
      in if sleep dataTypes \<or> activity dataTypes \<or> readiness dataTypes \<or> heartRate dataTypes
         then Some relevantData else None)"

text \<open>
  The events written to the response: \<open>{content}\<close>, \<open>{done: true}\<close>,
  \<open>{ouraData, done: true}\<close> and \<open>{error}\<close>.  A response is a JSON body with its status,
  or the events written before \<open>res.end()\<close>.
\<close>

datatype 'p sse_event =
    ContentEvent string
  | DoneEvent
  | DataDoneEvent "'p relevant_data option"
  | ErrorEvent string

datatype 'p response =
    JsonError nat string "string option"
  | EventStream "'p sse_event list"

text \<open>
  The stream of a generation: the \<open>text\<close> of its chunks (\<open>None\<close> when a chunk has none)
  and the value thrown after them, if the iteration fails.
\<close>

record chunk_stream =
  chunks :: "string option list"
  failure :: "thrown option"

text \<open>
  The request, as far as the handler reads it: the outcome of \<open>ouraQuerySchema.safeParse\<close>
  on its body (the message of the first issue, or the query and the conversation history),
  whether an Oura session exists, and the session id.
\<close>

record query_request =
  safeParse_body :: "string option + string \<times> (string \<times> string) list"
  isConnected :: bool
  sessionID :: string

text \<open>
  The collaborators of the handler, and the clock readings of \<open>new Date()\<close> in
  \<open>extractDateRange\<close>, of \<open>Date.now()\<close> in \<open>get\<close> and of \<open>Date.now()\<close> in \<open>set\<close>.
\<close>

record 'p collaborators =
  date_model :: date_ai
  text_model :: "(string + ConversationTurn list, chunk_stream) ai_env"
  api :: "'p oura_api"
  json :: "'p json_text"
  clock_extract :: int
  clock_get :: int
  clock_set :: int

text \<open>\<open>error?.message || error?.toString() || "Unknown error"\<close>\<close>

definition errorMessage :: "thrown \<Rightarrow> string" where
  "errorMessage error =
     (case message error of
        Some m \<Rightarrow> if m \<noteq> [] then m else ''Error''
      | None \<Rightarrow> ''[object Object]'')"

text \<open>
  The \<open>catch\<close> of the handler: an error event closes a response whose headers are sent,
  that is, to which something was written; otherwise the response is a JSON error.
\<close>

definition on_error :: "'p sse_event list \<Rightarrow> thrown \<Rightarrow> 'p response" where
  "on_error written error =
     (if written \<noteq> []
      then EventStream (written @ [ErrorEvent (''Failed to process query: '' @ errorMessage error)])
      else JsonError 500 ''Failed to process query'' (Some (errorMessage error)))"

text \<open>
  From \<open>extractDateRange\<close> to the cache write: the date range, the relevant types, the
  dataset and the cache after it, or the value thrown.
\<close>

definition resolve_dataset ::
    "'p collaborators \<Rightarrow> query_request \<Rightarrow> ('p, daily_stat) OuraCache \<Rightarrow> string
     \<Rightarrow> thrown + DateRange \<times> DataTypeFlags \<times> ('p, daily_stat) OuraData \<times> ('p, daily_stat) OuraCache" where
  "resolve_dataset env req queryCache query =
     (case extractDateRange query (date_model env) (clock_extract env) of
        Inl error \<Rightarrow> Inl error
      | Inr dateRange \<Rightarrow>
          (let dataTypes = detectRelevantDataTypes query;
               sessionId = sessionID req;
               (cachedEntry, queryCache1) = get queryCache (clock_get env) sessionId;
               (dateRange1, ouraData) =
                 (case cachedEntry of
                    None \<Rightarrow> (dateRange, None)
                  | Some entry \<Rightarrow>
                      if \<not> usesCustomRange dateRange then
                        (dateRange\<lparr> startDate := startDate entry, endDate := endDate entry,
                                    usesCustomRange := True \<rparr>,
                         Some (data entry))
                      else if matches entry (startDate dateRange) (endDate dateRange) dataTypes then
                        (dateRange,
                         Some (filterData entry (startDate dateRange) (endDate dateRange)))
                      else (dateRange, None))
           in case ouraData of
                Some cached \<Rightarrow> Inr (dateRange1, dataTypes, cached, queryCache1)
              | None \<Rightarrow>
                  (let fetched =
                         (if usesCustomRange dateRange1
                          then getAllOuraDataByDateRange (api env) (isConnected req)
                                 (startDate dateRange1) (endDate dateRange1) dataTypes
                          else getAllOuraData (api env) (isConnected req) 7);
                       queryCache2 =
                         (if sessionId \<noteq> []
                          then set_entry queryCache1 (clock_set env) sessionId
                                 (startDate dateRange1) (endDate dateRange1) fetched dataTypes
                          else queryCache1)
                   in Inr (dateRange1, dataTypes, fetched, queryCache2))))"

definition noDataMsg :: "DateRange \<Rightarrow> string" where
  "noDataMsg dateRange =
     (if usesCustomRange dateRange
      then ''I couldn'' @ apostrophe @ ''t find any data from your Oura ring for the period ''
           @ startDate dateRange @ '' to '' @ endDate dateRange
           @ ''. Please make sure your ring was synced during that time.''
      else ''I couldn'' @ apostrophe
           @ ''t find any recent data from your Oura ring. Please make sure your ring is synced and try again.'')"

definition hasData :: "('p, daily_stat) OuraData \<Rightarrow> bool" where
  "hasData ouraData \<longleftrightarrow>
     length (sleep_data ouraData) > 0 \<or> length (activity_data ouraData) > 0
     \<or> length (readiness_data ouraData) > 0 \<or> length (readings (heartRate_data ouraData)) > 0"

text \<open>The events of the chunks: one content event for each chunk with a non-empty text.\<close>

definition chunk_events :: "string option list \<Rightarrow> 'p sse_event list" where
  "chunk_events cs =
     concat (map (\<lambda>c. case c of
                         None \<Rightarrow> []
                       | Some txt \<Rightarrow> if txt \<noteq> [] then [ContentEvent txt] else []) cs)"

text \<open>From the check for data to the end of the response.\<close>

definition respond ::
    "'p collaborators \<Rightarrow> string \<Rightarrow> (string \<times> string) list \<Rightarrow> DateRange \<Rightarrow> DataTypeFlags
     \<Rightarrow> ('p, daily_stat) OuraData \<Rightarrow> 'p response" where
  "respond env query conversationHistory dateRange dataTypes ouraData =
     (if \<not> hasData ouraData then
        EventStream [ContentEvent (noDataMsg dateRange), DoneEvent]
      else
        (let dateRangeDescription =
               (if usesCustomRange dateRange
                then ''from '' @ startDate dateRange @ '' to '' @ endDate dateRange
                else ''from the last 7 days'');
             dataSections = buildDataSections (json env) ouraData dataTypes;
             systemContext = buildSystemContext dateRangeDescription dataSections;
             streamInput = buildStreamInput query systemContext conversationHistory
         in case fst (generateWithRetry (text_model env) streamInput default_maxRetries) of
              Inl error \<Rightarrow> on_error [] error
            | Inr stream \<Rightarrow>
                (let written = chunk_events (chunks stream)
                 in case failure stream of
                      Some error \<Rightarrow> on_error written error
                    | None \<Rightarrow>
                        EventStream
                          (written @ [DataDoneEvent (buildRelevantDataPayload ouraData dataTypes)]))))"

text \<open>The handler of \<open>POST /api/oura/query\<close>: the response and the cache after it.\<close>

definition handle_query ::
    "'p collaborators \<Rightarrow> query_request \<Rightarrow> ('p, daily_stat) OuraCache
     \<Rightarrow> 'p response \<times> ('p, daily_stat) OuraCache" where
  "handle_query env req queryCache =
     (case safeParse_body req of
        Inl issue \<Rightarrow>
          (JsonError 400 (case issue of
                            Some msg \<Rightarrow> if msg \<noteq> [] then msg else ''Query is required''
                          | None \<Rightarrow> ''Query is required'') None,
           queryCache)
      | Inr (query, conversationHistory) \<Rightarrow>
          if \<not> isConnected req then
            (JsonError 401 ''Please connect your Oura ring first.'' None, queryCache)
          else
            (case resolve_dataset env req queryCache query of
               Inl error \<Rightarrow> (on_error [] error, queryCache)
             | Inr (dateRange, dataTypes, ouraData, queryCache') \<Rightarrow>
                 (respond env query conversationHistory dateRange dataTypes ouraData,
                  queryCache')))"

text \<open>
  Collaborators, requests and caches on which the handler is run below: an API without data
  and one with a night of sleep, a model that answers in one chunk, the clock at
  2026-11-02T12:00:00Z, and a cache whose entry for \<open>session-1\<close> was fetched a minute
  earlier for a question about sleep, heart rate not included.
\<close>

definition silent_api :: "nat oura_api" where
  "silent_api =
     \<lparr> getSleepData = (\<lambda>days. []), getActivityData = (\<lambda>days. []),
       getReadinessData = (\<lambda>days. []),
       getHeartRateData = (\<lambda>days. \<lparr> readings = [], dailyStats = [] \<rparr>),
       getSleepDataByDateRange = (\<lambda>sd ed. []), getActivityDataByDateRange = (\<lambda>sd ed. []),
       getReadinessDataByDateRange = (\<lambda>sd ed. []),
       getHeartRateDataByDateRange = (\<lambda>sd ed. \<lparr> readings = [], dailyStats = [] \<rparr>) \<rparr>"

definition one_chunk_model :: "(string + ConversationTurn list, chunk_stream) ai_env" where
  "one_chunk_model =
     \<lparr> generateContentStream =
         (\<lambda>n model thinkingLow contents.
            Inr \<lparr> chunks = [Some ''Here is what I found.''], failure = None \<rparr>),
       random = (\<lambda>n. 0) \<rparr>"

definition example_env :: "nat collaborators" where
  "example_env =
     \<lparr> date_model = failing_ai, text_model = one_chunk_model, api = silent_api,
       json = \<lparr> stringify_items = (\<lambda>items. ''[...]''), stringify_summary = (\<lambda>rows. ''[...]'') \<rparr>,
       clock_extract = clock_2026_11_02, clock_get = clock_2026_11_02,
       clock_set = clock_2026_11_02 \<rparr>"

definition example_request :: "string \<Rightarrow> query_request" where
  "example_request query =
     \<lparr> safeParse_body = Inr (query, []), isConnected = True, sessionID = ''session-1'' \<rparr>"

definition sleep_only_entry :: "(nat, daily_stat) CacheEntry" where
  "sleep_only_entry =
     \<lparr> startDate = ''2026-10-26'', endDate = ''2026-11-02'',
       data = \<lparr> sleep_data = [\<lparr> day = Some ''2026-11-01'', payload = 82 \<rparr>],
                activity_data = [], readiness_data = [],
                heartRate_data = \<lparr> readings = [], dailyStats = [] \<rparr> \<rparr>,
       includedTypes = \<lparr> sleep = True, activity = False, readiness = False, heartRate = False \<rparr>,
       timestamp_ms = clock_2026_11_02 - 60000 \<rparr>"

definition sleep_only_cache :: "(nat, daily_stat) OuraCache" where
  "sleep_only_cache = \<lparr> cache = [''session-1'' \<mapsto> sleep_only_entry], TTL = 60 * 60 * 1000 \<rparr>"


text \<open>
  The reading of the claims: a text of the form \<open>YYYY-MM-DD\<close>, four digits, two digits
  and two digits separated by hyphens.
\<close>

definition is_date_text :: "string \<Rightarrow> bool" where
  "is_date_text d \<longleftrightarrow>
     length d = 10 \<and> list_all (in_class Digit) (take 4 d) \<and> d ! 4 = CHR ''-''
     \<and> list_all (in_class Digit) (take 2 (drop 5 d)) \<and> d ! 7 = CHR ''-''
     \<and> list_all (in_class Digit) (drop 8 d)"

section \<open>Facts about strings\<close>

lemma includes_str_iff_sublist: "includes_str s sub \<longleftrightarrow> sublist sub s"
  by (induction s) (auto simp: sublist_Cons_right)

section \<open>Relevance classifier: the claims\<close>

text \<open>
  C3 (as stated): the classifier applied to \<open>What's my resting heart rate?\<close> returns
  heartRate = true and sleep = activity = readiness = false.  This fails: the lower-cased
  query contains \<open>rest\<close> (inside \<open>resting\<close>), a sleep keyword, so sleep is true.
\<close>

theorem C3_resting_query_counterexample:
  "\<not> (heartRate (detectRelevantDataTypes resting_query)
      \<and> \<not> sleep (detectRelevantDataTypes resting_query)
      \<and> \<not> activity (detectRelevantDataTypes resting_query)
      \<and> \<not> readiness (detectRelevantDataTypes resting_query))"
  by (simp add: detectRelevantDataTypes_def resting_query_def toLowerCase_def
      toLowerCase_char_def)

text \<open>
  C3 (amended): the classifier applied to \<open>What's my resting heart rate?\<close> returns
  heartRate = true and sleep = true (substring \<open>rest\<close>), activity = false and
  readiness = false.
\<close>

theorem C3_resting_query_flags:
  "detectRelevantDataTypes resting_query =
     \<lparr> sleep = True, activity = False, readiness = False, heartRate = True \<rparr>"
  by (simp add: detectRelevantDataTypes_def resting_query_def toLowerCase_def
      toLowerCase_char_def)

text \<open>
  C6: for every query in which no keyword of the four categories occurs as a substring
  (of the lower-cased text), the classifier returns sleep = activity = readiness = true
  and heartRate = false.
\<close>

theorem C6_no_keyword_defaults:
  assumes "\<forall>k \<in> set category_keywords. \<not> sublist k (toLowerCase q)"
  shows "detectRelevantDataTypes q =
           \<lparr> sleep = True, activity = True, readiness = True, heartRate = False \<rparr>"
  using assms
  by (simp add: detectRelevantDataTypes_def category_keywords_def sleep_keywords_def
      activity_keywords_def readiness_keywords_def heartRate_keywords_def
      includes_str_iff_sublist)

theorem C6_no_keyword_defaults_witness:
  "\<not> (\<exists>k \<in> set category_keywords. sublist k (toLowerCase ''How am I doing?''))
   \<and> detectRelevantDataTypes ''How am I doing?'' =
       \<lparr> sleep = True, activity = True, readiness = True, heartRate = False \<rparr>"
  using C6_no_keyword_defaults [of "''How am I doing?''"]
  by (simp add: category_keywords_def sleep_keywords_def activity_keywords_def
      readiness_keywords_def heartRate_keywords_def includes_str_iff_sublist [symmetric]
      toLowerCase_def toLowerCase_char_def)

text \<open>
  The older handler differs on such a query: it leaves activity out.  On the query of C3
  it sets sleep as well, \<open>resting\<close> containing \<open>rest\<close>.
\<close>

lemma legacy_defaults:
  "legacy_relevant_types ''How am I doing?'' =
     \<lparr> sleep = True, activity = False, readiness = True, heartRate = False \<rparr>"
  "legacy_relevant_types resting_query =
     \<lparr> sleep = True, activity = False, readiness = False, heartRate = True \<rparr>"
  by code_simp+

section \<open>Session response cache: the claims\<close>

lemma first_elem_split_str:
  "first_elem (split_str sep s) = Some (takeWhile (\<lambda>c. c \<noteq> sep) s)"
  by (induction s) (auto simp: first_elem_def split: list.splits)

lemma assign_key_fresh: "k \<notin> fst ` set acc \<Longrightarrow> assign_key k v acc = acc @ [(k, v)]"
  by (induction acc) auto

text \<open>
  Copying the selected entries into a fresh object, one assignment per entry, yields the
  selected entries in their order: no assignment overwrites, the keys being distinct.
\<close>

lemma fold_assign_key:
  "distinct (map fst acc @ map fst es) \<Longrightarrow>
   fold (\<lambda>(d, stats) acc. if P d then assign_key d stats acc else acc) es acc
     = acc @ filter (\<lambda>(d, stats). P d) es"
proof (induction es arbitrary: acc)
  case Nil
  then show ?case by simp
next
  case (Cons x es)
  obtain k v where x: "x = (k, v)" by (cases x)
  show ?case
  proof (cases "P k")
    case True
    from Cons.prems x have fresh: "k \<notin> fst ` set acc" by auto
    from Cons.prems x have d: "distinct (map fst (acc @ [(k, v)]) @ map fst es)" by auto
    show ?thesis using True x Cons.IH [OF d] by (simp add: assign_key_fresh [OF fresh])
  next
    case False
    from Cons.prems x have d: "distinct (map fst acc @ map fst es)" by auto
    show ?thesis using False x Cons.IH [OF d] by simp
  qed
qed

lemma filterByDate_eq:
  "filterByDate s t items = filter (\<lambda>i. \<exists>d. day i = Some d \<and> in_range s t d) items"
  unfolding filterByDate_def in_range_def
  by (rule filter_cong) (auto split: option.splits)

lemma filterHeartRate_readings:
  "readings (filterHeartRate s t hr) =
     filter (\<lambda>r. \<exists>ts. timestamp r = Some ts \<and> in_range s t (date_part ts)) (readings hr)"
proof -
  have "filter (\<lambda>r. case Option.bind (timestamp r) (\<lambda>ts. first_elem (split_str (CHR ''T'') ts)) of
                       None \<Rightarrow> False | Some d \<Rightarrow> d \<ge> s \<and> d \<le> t) (readings hr)
        = filter (\<lambda>r. \<exists>ts. timestamp r = Some ts \<and> in_range s t (date_part ts)) (readings hr)"
    by (rule filter_cong)
       (auto simp: first_elem_split_str in_range_def date_part_def split: option.splits
             Option.bind_splits)
  then show ?thesis by (simp add: filterHeartRate_def Let_def)
qed

lemma filterHeartRate_dailyStats:
  assumes "distinct (map fst (dailyStats hr))"
  shows "dailyStats (filterHeartRate s t hr) = filter (\<lambda>(k, v). in_range s t k) (dailyStats hr)"
  using fold_assign_key [of "[]" "dailyStats hr" "\<lambda>d. s \<le> d \<and> d \<le> t"] assms
  by (simp add: filterHeartRate_def Let_def in_range_def)

lemma matches_iff:
  "startDate e \<noteq> [] \<Longrightarrow> endDate e \<noteq> [] \<Longrightarrow>
   matches e s t n \<longleftrightarrow>
     (startDate e \<le> s \<and> endDate e \<ge> t
      \<and> (sleep n \<longrightarrow> sleep (includedTypes e))
      \<and> (activity n \<longrightarrow> activity (includedTypes e))
      \<and> (readiness n \<longrightarrow> readiness (includedTypes e))
      \<and> (heartRate n \<longrightarrow> heartRate (includedTypes e)))"
  by (auto simp: matches_def)

text \<open>
  C4: for an entry whose two dates are present (non-empty, as every ISO date string is)
  \<open>matches\<close> returns true iff \<open>entry.startDate \<le> start\<close>, \<open>entry.endDate \<ge> end\<close>
  (lexicographically) and every needed type flag is set among the entry's included types;
  and \<open>filterData\<close> returns, for every range \<open>[s, t]\<close>, exactly the sleep, activity and
  readiness items whose \<open>day\<close> lies within \<open>[s, t]\<close>, the heart-rate readings whose
  timestamp's date part lies within it, and the \<open>dailyStats\<close> entries whose key lies
  within it, both ends included (the keys of the \<open>dailyStats\<close> object being distinct).
\<close>

theorem C4_matches_and_filterData:
  fixes e :: "('p, 's) CacheEntry"
  assumes "startDate e \<noteq> []" and "endDate e \<noteq> []"
    and "distinct (map fst (dailyStats (heartRate_data (data e))))"
  shows "(matches e s t n \<longleftrightarrow>
            (startDate e \<le> s \<and> endDate e \<ge> t
             \<and> (sleep n \<longrightarrow> sleep (includedTypes e))
             \<and> (activity n \<longrightarrow> activity (includedTypes e))
             \<and> (readiness n \<longrightarrow> readiness (includedTypes e))
             \<and> (heartRate n \<longrightarrow> heartRate (includedTypes e))))
       \<and> sleep_data (filterData e s t) =
            filter (\<lambda>i. \<exists>d. day i = Some d \<and> in_range s t d) (sleep_data (data e))
       \<and> activity_data (filterData e s t) =
            filter (\<lambda>i. \<exists>d. day i = Some d \<and> in_range s t d) (activity_data (data e))
       \<and> readiness_data (filterData e s t) =
            filter (\<lambda>i. \<exists>d. day i = Some d \<and> in_range s t d) (readiness_data (data e))
       \<and> readings (heartRate_data (filterData e s t)) =
            filter (\<lambda>r. \<exists>ts. timestamp r = Some ts \<and> in_range s t (date_part ts))
                   (readings (heartRate_data (data e)))
       \<and> dailyStats (heartRate_data (filterData e s t)) =
            filter (\<lambda>(k, v). in_range s t k) (dailyStats (heartRate_data (data e)))"
proof -
  have m: "matches e s t n \<longleftrightarrow>
            (startDate e \<le> s \<and> endDate e \<ge> t
             \<and> (sleep n \<longrightarrow> sleep (includedTypes e))
             \<and> (activity n \<longrightarrow> activity (includedTypes e))
             \<and> (readiness n \<longrightarrow> readiness (includedTypes e))
             \<and> (heartRate n \<longrightarrow> heartRate (includedTypes e)))"
    using assms(1,2) by (rule matches_iff)
  have d: "dailyStats (heartRate_data (filterData e s t)) =
            filter (\<lambda>(k, v). in_range s t k) (dailyStats (heartRate_data (data e)))"
    using filterHeartRate_dailyStats [OF assms(3)] by (simp add: filterData_def)
  have r: "readings (heartRate_data (filterData e s t)) =
            filter (\<lambda>r. \<exists>ts. timestamp r = Some ts \<and> in_range s t (date_part ts))
                   (readings (heartRate_data (data e)))"
    by (simp add: filterData_def filterHeartRate_readings)
  show ?thesis
    using m d r by (simp add: filterData_def filterByDate_eq)
qed

theorem C4_matches_and_filterData_witness:
  "startDate example_entry \<noteq> [] \<and> endDate example_entry \<noteq> []
   \<and> distinct (map fst (dailyStats (heartRate_data (data example_entry))))
   \<and> matches example_entry ''2026-01-02'' ''2026-01-03''
        \<lparr> sleep = True, activity = False, readiness = False, heartRate = True \<rparr>
   \<and> sleep_data (filterData example_entry ''2026-01-02'' ''2026-01-03'') =
        [\<lparr> day = Some ''2026-01-02'', payload = 2 \<rparr>, \<lparr> day = Some ''2026-01-03'', payload = 3 \<rparr>]
   \<and> activity_data (filterData example_entry ''2026-01-02'' ''2026-01-03'') =
        [\<lparr> day = Some ''2026-01-03'', payload = 5 \<rparr>]
   \<and> readiness_data (filterData example_entry ''2026-01-02'' ''2026-01-03'') = []
   \<and> readings (heartRate_data (filterData example_entry ''2026-01-02'' ''2026-01-03'')) =
        [\<lparr> timestamp = Some ''2026-01-02T00:00:00+00:00'', bpm = 58, source = ''rest'' \<rparr>]
   \<and> dailyStats (heartRate_data (filterData example_entry ''2026-01-02'' ''2026-01-03'')) =
        [(''2026-01-02'', 58)]"
  using C4_matches_and_filterData [of example_entry "''2026-01-02''" "''2026-01-03''"
      "\<lparr> sleep = True, activity = False, readiness = False, heartRate = True \<rparr>"]
  by (simp add: example_entry_def example_data_def in_range_def date_part_def)

text \<open>
  C9: \<open>get(sessionId)\<close> returns none when the cache holds no entry for the session, and
  when it holds one with \<open>now - timestamp > TTL\<close>; in that case the read removes the
  session's entry from the map (and leaves every other session's entry and the TTL as
  they were).  An entry that has not expired is returned, the cache unchanged.
\<close>

theorem C9_get_absent_or_expired:
  "(cache c sid = None \<longrightarrow> get c now sid = (None, c))
   \<and> (\<forall>entry. cache c sid = Some entry \<and> now - timestamp_ms entry > TTL c \<longrightarrow>
          fst (get c now sid) = None
          \<and> cache (snd (get c now sid)) sid = None
          \<and> (\<forall>k. k \<noteq> sid \<longrightarrow> cache (snd (get c now sid)) k = cache c k)
          \<and> TTL (snd (get c now sid)) = TTL c)
   \<and> (\<forall>entry. cache c sid = Some entry \<and> \<not> now - timestamp_ms entry > TTL c \<longrightarrow>
          get c now sid = (Some entry, c))"
  by (simp add: get_def)

theorem C9_get_absent_or_expired_witness:
  "cache example_cache ''session-2'' = None
   \<and> get example_cache 3600001 ''session-2'' = (None, example_cache)
   \<and> cache example_cache ''session-1'' = Some example_entry
   \<and> 3600001 - timestamp_ms example_entry > TTL example_cache
   \<and> fst (get example_cache 3600001 ''session-1'') = None
   \<and> cache (snd (get example_cache 3600001 ''session-1'')) ''session-1'' = None
   \<and> \<not> 3600000 - timestamp_ms example_entry > TTL example_cache
   \<and> get example_cache 3600000 ''session-1'' = (Some example_entry, example_cache)"
  using C9_get_absent_or_expired [of example_cache "''session-2''" 3600001]
        C9_get_absent_or_expired [of example_cache "''session-1''" 3600001]
        C9_get_absent_or_expired [of example_cache "''session-1''" 3600000]
  by (simp add: example_cache_def example_entry_def)

section \<open>Generation client: the claims\<close>

declare attempts.simps [simp del]

text \<open>
  What one model adds to the log: \<open>k\<close> calls, all on that model and at most as
  many as the attempts left, and one delay after each call but the last.
\<close>

lemma attempts_log:
  "attempts env contents maxRetries model attempt (trace, lastError) = (exit, trace', lastError')
   \<Longrightarrow> \<exists>k ds. calls trace' = calls trace @ replicate k model
               \<and> delays trace' = delays trace @ ds
               \<and> k \<le> maxRetries - attempt \<and> length ds = k - 1
               \<and> (attempt < maxRetries \<longrightarrow> 0 < k)"
proof (induction env contents maxRetries model attempt "(trace, lastError)"
       arbitrary: trace lastError rule: attempts.induct)
  case (1 env contents maxRetries model attempt trace lastError)
  show ?case
  proof (cases "attempt < maxRetries")
    case False
    with "1.prems" have "calls trace' = calls trace @ replicate 0 model \<and>
        delays trace' = delays trace @ []"
      by (simp add: attempts.simps)
    with False show ?thesis by (intro exI [of _ 0] exI [of _ "[]"]) simp
  next
    case lt: True
    show ?thesis
    proof (cases "generateContentStream env (length (calls trace)) model
                    (includes_str model ''gemini-3'') contents")
      case (Inr stream)
      with lt "1.prems" have "calls trace' = calls trace @ replicate 1 model \<and>
          delays trace' = delays trace @ []"
        by (auto simp add: attempts.simps Let_def)
      with lt show ?thesis by (intro exI [of _ 1] exI [of _ "[]"]) simp
    next
      case (Inl error)
      show ?thesis
      proof (cases "is429 error \<and> int attempt < int maxRetries - 1")
        case False
        with lt Inl "1.prems" have "calls trace' = calls trace @ replicate 1 model \<and>
            delays trace' = delays trace @ []"
          by (auto simp add: attempts.simps Let_def split: if_splits)
        with lt show ?thesis by (intro exI [of _ 1] exI [of _ "[]"]) simp
      next
        case True
        with lt Inl "1.prems" have run:
          "attempts env contents maxRetries model (attempt + 1)
             (trace\<lparr> calls := calls trace @ [model],
                     delays := delays trace @ [2 ^ attempt * 1000
                        + random env (length (delays trace)) * 1000] \<rparr>, Some error)
           = (exit, trace', lastError')"
          by (simp add: attempts.simps [of env contents maxRetries model attempt] Let_def)
        from "1.hyps" [OF lt refl refl Inl True refl] run
        obtain k ds where k: "calls trace' = (calls trace @ [model]) @ replicate k model"
            "delays trace' = (delays trace @ [2 ^ attempt * 1000
                        + random env (length (delays trace)) * 1000]) @ ds"
            "k \<le> maxRetries - (attempt + 1)" "length ds = k - 1"
            "attempt + 1 < maxRetries \<longrightarrow> 0 < k"
          by auto
        from True have more: "attempt + 1 < maxRetries" by simp
        have "0 < k" using k(5) more by simp
        have "calls trace' = calls trace @ replicate (Suc k) model"
          using k(1) by simp
        moreover have "delays trace' = delays trace @ ((2 ^ attempt * 1000
                        + random env (length (delays trace)) * 1000) # ds)"
          using k(2) by simp
        moreover have "Suc k \<le> maxRetries - attempt" using k(3) lt by simp
        moreover have "length ((2 ^ attempt * 1000
                        + random env (length (delays trace)) * 1000) # ds) = Suc k - 1"
          using k(4) \<open>0 < k\<close> by simp
        ultimately show ?thesis by blast
      qed
    qed
  qed
qed

lemma count_list_replicate_model:
  "count_list (replicate k model) m = (if m = model then k else 0)"
  by (induction k) auto

text \<open>
  Over a list of distinct models, each model gets at most \<open>maxRetries\<close> calls and
  at most \<open>maxRetries - 1\<close> delays.
\<close>

lemma models_loop_log:
  "models_loop env contents maxRetries ms (trace, lastError) = (res, trace') \<Longrightarrow> distinct ms
   \<Longrightarrow> count_list (calls trace') m
         \<le> count_list (calls trace) m + (if m \<in> set ms then maxRetries else 0)
       \<and> length (delays trace') \<le> length (delays trace) + length ms * (maxRetries - 1)"
proof (induction ms arbitrary: trace lastError)
  case Nil
  then show ?case by simp
next
  case (Cons model rest)
  obtain exit t1 l1 where a: "attempts env contents maxRetries model 0 (trace, lastError) = (exit, t1, l1)"
    by (cases "attempts env contents maxRetries model 0 (trace, lastError)") auto
  from attempts_log [OF a] obtain k ds where k:
    "calls t1 = calls trace @ replicate k model" "delays t1 = delays trace @ ds"
    "k \<le> maxRetries" "length ds = k - 1"
    by auto
  have c1: "count_list (calls t1) m = count_list (calls trace) m + (if m = model then k else 0)"
    using k(1) by (simp add: count_list_replicate_model)
  have d1: "length (delays t1) \<le> length (delays trace) + (maxRetries - 1)"
    using k(2,3,4) by simp
  show ?case
  proof (cases exit)
    case (Returned stream)
    with a Cons.prems(1) have "trace' = t1" by simp
    with c1 d1 k(3) show ?thesis by simp
  next
    case (Threw error)
    with a Cons.prems(1) have "trace' = t1" by simp
    with c1 d1 k(3) show ?thesis by simp
  next
    case NextModel
    with a Cons.prems(1) have "models_loop env contents maxRetries rest (t1, l1) = (res, trace')"
      by simp
    from Cons.IH [OF this] Cons.prems(2)
    have ih: "count_list (calls trace') m
                \<le> count_list (calls t1) m + (if m \<in> set rest then maxRetries else 0)"
             "length (delays trace') \<le> length (delays t1) + length rest * (maxRetries - 1)"
      by simp_all
    from Cons.prems(2) have "model \<notin> set rest" by simp
    with ih(1) c1 k(3) have "count_list (calls trace') m
         \<le> count_list (calls trace) m + (if m \<in> set (model # rest) then maxRetries else 0)"
      by (auto split: if_splits)
    moreover from ih(2) d1 have "length (delays trace')
         \<le> length (delays trace) + length (model # rest) * (maxRetries - 1)"
      by simp
    ultimately show ?thesis by simp
  qed
qed

lemma generateWithRetry_log:
  "count_list (calls (snd (generateWithRetry env contents maxRetries))) m \<le> maxRetries
   \<and> length (delays (snd (generateWithRetry env contents maxRetries))) \<le> 2 * (maxRetries - 1)"
proof -
  obtain res trace' where r: "generateWithRetry env contents maxRetries = (res, trace')"
    by (cases "generateWithRetry env contents maxRetries") auto
  then have "models_loop env contents maxRetries MODELS (\<lparr> calls = [], delays = [] \<rparr>, None)
             = (res, trace')"
    by (simp add: generateWithRetry_def)
  from models_loop_log [OF this, of m] r show ?thesis
    by (simp add: MODELS_def split: if_splits)
qed

text \<open>
  C1 (as stated): if the primary model fails with a rate-limit error exactly twice and
  then succeeds, \<open>generateWithRetry\<close> observes exactly 2 backoff delays and the final
  stream comes from the primary model.  This fails with the default \<open>maxRetries = 2\<close>:
  the loop makes at most \<open>maxRetries\<close> calls per model, so after the second rate-limit
  error it leaves the primary model; one delay is observed and the stream is the
  fallback model's.
\<close>

theorem C1_default_maxRetries_counterexample:
  "generateContentStream rate_limited_twice 0 ''gemini-3-flash-preview'' True ()
     = Inl (Thrown (Some ''got status: 429 Too Many Requests''))
   \<and> generateContentStream rate_limited_twice 1 ''gemini-3-flash-preview'' True ()
     = Inl (Thrown (Some ''got status: 429 Too Many Requests''))
   \<and> is429 (Thrown (Some ''got status: 429 Too Many Requests''))
   \<and> generateContentStream rate_limited_twice 2 ''gemini-3-flash-preview'' True () = Inr 1
   \<and> generateWithRetry rate_limited_twice () default_maxRetries =
       (Inr 2, \<lparr> calls = [''gemini-3-flash-preview'', ''gemini-3-flash-preview'',
                           ''gemini-2.5-flash''],
                  delays = [1500] \<rparr>)
   \<and> \<not> (length (delays (snd (generateWithRetry rate_limited_twice () default_maxRetries))) = 2
         \<and> fst (generateWithRetry rate_limited_twice () default_maxRetries) = Inr 1)"
  by (simp add: generateWithRetry_def MODELS_def default_maxRetries_def rate_limited_twice_def
      attempts.simps is429_def)

text \<open>
  C1 (amended): if the first two calls, on the primary model, fail with a rate-limit error
  and a third call on the primary model would succeed, then:
  with \<open>maxRetries \<ge> 3\<close>, \<open>generateWithRetry\<close> calls the primary model three
  times, waits exactly two delays, \<open>2^0 * 1000 + jitter\<close> and \<open>2^1 * 1000 + jitter\<close>,
  and returns the primary model's stream;
  with the default \<open>maxRetries = 2\<close> it leaves the primary model after the second error,
  having waited one delay \<open>2^0 * 1000 + jitter\<close>, and makes its third call on the
  fallback model.  If that call returns, its stream is the result and exactly one delay
  has been waited; if it throws an error that is not a rate limit, that error is thrown
  and exactly one delay has been waited; if it is rate limited, a second delay
  \<open>2^0 * 1000 + jitter\<close> is waited (the attempt counter starts again for each model),
  a fourth call is made on the fallback model, and its outcome, stream or error, is the
  outcome of the run, with exactly two delays waited;
  whatever \<open>maxRetries\<close> is, no model is called more than \<open>maxRetries\<close> times and
  at most \<open>2 * (maxRetries - 1)\<close> delays are waited in all.
\<close>

theorem C1_two_rate_limits_then_success:
  fixes env :: "('c, 's) ai_env"
  assumes h0: "generateContentStream env 0 ''gemini-3-flash-preview'' True contents = Inl e0"
      and r0: "is429 e0"
      and h1: "generateContentStream env 1 ''gemini-3-flash-preview'' True contents = Inl e1"
      and r1: "is429 e1"
      and h2: "generateContentStream env 2 ''gemini-3-flash-preview'' True contents = Inr s"
  shows "(3 \<le> maxRetries \<longrightarrow>
            generateWithRetry env contents maxRetries =
              (Inr s, \<lparr> calls = [''gemini-3-flash-preview'', ''gemini-3-flash-preview'',
                                  ''gemini-3-flash-preview''],
                        delays = [2 ^ 0 * 1000 + random env 0 * 1000,
                                  2 ^ 1 * 1000 + random env 1 * 1000] \<rparr>))
       \<and> generateWithRetry env contents default_maxRetries =
           (case generateContentStream env 2 ''gemini-2.5-flash'' False contents of
              Inr s' \<Rightarrow>
                (Inr s', \<lparr> calls = [''gemini-3-flash-preview'', ''gemini-3-flash-preview'',
                                     ''gemini-2.5-flash''],
                           delays = [2 ^ 0 * 1000 + random env 0 * 1000] \<rparr>)
            | Inl e2 \<Rightarrow>
                if is429 e2
                then (generateContentStream env 3 ''gemini-2.5-flash'' False contents,
                      \<lparr> calls = [''gemini-3-flash-preview'', ''gemini-3-flash-preview'',
                                 ''gemini-2.5-flash'', ''gemini-2.5-flash''],
                        delays = [2 ^ 0 * 1000 + random env 0 * 1000,
                                  2 ^ 0 * 1000 + random env 1 * 1000] \<rparr>)
                else (Inl e2, \<lparr> calls = [''gemini-3-flash-preview'', ''gemini-3-flash-preview'',
                                         ''gemini-2.5-flash''],
                               delays = [2 ^ 0 * 1000 + random env 0 * 1000] \<rparr>))
       \<and> (\<forall>model. count_list (calls (snd (generateWithRetry env contents maxRetries))) model
                    \<le> maxRetries)
       \<and> length (delays (snd (generateWithRetry env contents maxRetries))) \<le> 2 * (maxRetries - 1)"
proof (intro conjI impI allI)
  assume "3 \<le> maxRetries"
  then show "generateWithRetry env contents maxRetries =
              (Inr s, \<lparr> calls = [''gemini-3-flash-preview'', ''gemini-3-flash-preview'',
                                  ''gemini-3-flash-preview''],
                        delays = [2 ^ 0 * 1000 + random env 0 * 1000,
                                  2 ^ 1 * 1000 + random env 1 * 1000] \<rparr>)"
    using h0 r0 h1 r1 h2
    by (simp add: generateWithRetry_def MODELS_def attempts.simps Let_def numeral_2_eq_2)
next
  show "generateWithRetry env contents default_maxRetries =
           (case generateContentStream env 2 ''gemini-2.5-flash'' False contents of
              Inr s' \<Rightarrow>
                (Inr s', \<lparr> calls = [''gemini-3-flash-preview'', ''gemini-3-flash-preview'',
                                     ''gemini-2.5-flash''],
                           delays = [2 ^ 0 * 1000 + random env 0 * 1000] \<rparr>)
            | Inl e2 \<Rightarrow>
                if is429 e2
                then (generateContentStream env 3 ''gemini-2.5-flash'' False contents,
                      \<lparr> calls = [''gemini-3-flash-preview'', ''gemini-3-flash-preview'',
                                 ''gemini-2.5-flash'', ''gemini-2.5-flash''],
                        delays = [2 ^ 0 * 1000 + random env 0 * 1000,
                                  2 ^ 0 * 1000 + random env 1 * 1000] \<rparr>)
                else (Inl e2, \<lparr> calls = [''gemini-3-flash-preview'', ''gemini-3-flash-preview'',
                                         ''gemini-2.5-flash''],
                               delays = [2 ^ 0 * 1000 + random env 0 * 1000] \<rparr>))"
    using h0 r0 h1 r1
    by (simp add: generateWithRetry_def MODELS_def default_maxRetries_def attempts.simps Let_def
        numeral_2_eq_2 numeral_3_eq_3 split: sum.splits)
next
  fix model
  show "count_list (calls (snd (generateWithRetry env contents maxRetries))) model \<le> maxRetries"
    using generateWithRetry_log [of env contents maxRetries model] by simp
next
  show "length (delays (snd (generateWithRetry env contents maxRetries))) \<le> 2 * (maxRetries - 1)"
    by (rule conjunct2 [OF generateWithRetry_log])
qed

theorem C1_two_rate_limits_then_success_witness:
  "generateContentStream rate_limited_twice 0 ''gemini-3-flash-preview'' True ()
     = Inl (Thrown (Some ''got status: 429 Too Many Requests''))
   \<and> generateContentStream rate_limited_twice 1 ''gemini-3-flash-preview'' True ()
     = Inl (Thrown (Some ''got status: 429 Too Many Requests''))
   \<and> is429 (Thrown (Some ''got status: 429 Too Many Requests''))
   \<and> generateContentStream rate_limited_twice 2 ''gemini-3-flash-preview'' True () = Inr 1
   \<and> generateWithRetry rate_limited_twice () 3 =
       (Inr 1, \<lparr> calls = [''gemini-3-flash-preview'', ''gemini-3-flash-preview'',
                           ''gemini-3-flash-preview''],
                  delays = [1500, 2500] \<rparr>)
   \<and> generateWithRetry rate_limited_twice () default_maxRetries =
       (Inr 2, \<lparr> calls = [''gemini-3-flash-preview'', ''gemini-3-flash-preview'',
                           ''gemini-2.5-flash''],
                  delays = [1500] \<rparr>)
   \<and> generateContentStream both_rate_limited 0 ''gemini-3-flash-preview'' True ()
     = Inl (Thrown (Some ''got status: 429 Too Many Requests''))
   \<and> generateContentStream both_rate_limited 1 ''gemini-3-flash-preview'' True ()
     = Inl (Thrown (Some ''got status: 429 Too Many Requests''))
   \<and> generateContentStream both_rate_limited 2 ''gemini-3-flash-preview'' True () = Inr 1
   \<and> generateContentStream both_rate_limited 2 ''gemini-2.5-flash'' False ()
     = Inl (Thrown (Some ''RESOURCE_EXHAUSTED''))
   \<and> is429 (Thrown (Some ''RESOURCE_EXHAUSTED''))
   \<and> generateWithRetry both_rate_limited () default_maxRetries =
       (Inr 2, \<lparr> calls = [''gemini-3-flash-preview'', ''gemini-3-flash-preview'',
                           ''gemini-2.5-flash'', ''gemini-2.5-flash''],
                  delays = [1500, 1250] \<rparr>)
   \<and> count_list (calls (snd (generateWithRetry both_rate_limited () default_maxRetries)))
         ''gemini-3-flash-preview'' \<le> default_maxRetries"
proof -
  have h0: "generateContentStream rate_limited_twice 0 ''gemini-3-flash-preview'' True ()
              = Inl (Thrown (Some ''got status: 429 Too Many Requests''))"
    by (simp add: rate_limited_twice_def)
  have h1: "generateContentStream rate_limited_twice 1 ''gemini-3-flash-preview'' True ()
              = Inl (Thrown (Some ''got status: 429 Too Many Requests''))"
    by (simp add: rate_limited_twice_def)
  have r: "is429 (Thrown (Some ''got status: 429 Too Many Requests''))"
    by (simp add: is429_def)
  have h2: "generateContentStream rate_limited_twice 2 ''gemini-3-flash-preview'' True () = Inr 1"
    by (simp add: rate_limited_twice_def)
  have f2: "generateContentStream rate_limited_twice 2 ''gemini-2.5-flash'' False () = Inr 2"
    by (simp add: rate_limited_twice_def)
  have rnd: "random rate_limited_twice n = 1 / 2" for n
    by (simp add: rate_limited_twice_def)
  have b0: "generateContentStream both_rate_limited 0 ''gemini-3-flash-preview'' True ()
              = Inl (Thrown (Some ''got status: 429 Too Many Requests''))"
    by (simp add: both_rate_limited_def)
  have b1: "generateContentStream both_rate_limited 1 ''gemini-3-flash-preview'' True ()
              = Inl (Thrown (Some ''got status: 429 Too Many Requests''))"
    by (simp add: both_rate_limited_def)
  have b2: "generateContentStream both_rate_limited 2 ''gemini-3-flash-preview'' True () = Inr 1"
    by (simp add: both_rate_limited_def)
  have g2: "generateContentStream both_rate_limited 2 ''gemini-2.5-flash'' False ()
              = Inl (Thrown (Some ''RESOURCE_EXHAUSTED''))"
    by (simp add: both_rate_limited_def)
  have g3: "generateContentStream both_rate_limited 3 ''gemini-2.5-flash'' False () = Inr 2"
    by (simp add: both_rate_limited_def)
  have rr: "is429 (Thrown (Some ''RESOURCE_EXHAUSTED''))"
    by (simp add: is429_def)
  have rnd': "random both_rate_limited 0 = 1 / 2" "random both_rate_limited (Suc 0) = 1 / 4"
    by (simp_all add: both_rate_limited_def)
  show ?thesis
    using C1_two_rate_limits_then_success [OF h0 r h1 r h2, of 3]
          C1_two_rate_limits_then_success [OF b0 r b1 r b2, of default_maxRetries] h1 b1
    by (simp add: h0 r h2 f2 rnd b0 b2 g2 g3 rr rnd' default_maxRetries_def)
qed

section \<open>Facts about the patterns\<close>

text \<open>
  The pattern of an explicit range matches exactly the texts that contain a date, white
  space, \<open>to\<close> or a hyphen, white space and a date: a match captures the two dates and
  the separator of such an occurrence (\<open>range_match_is_occurrence\<close>), and every text with
  such an occurrence has a match (\<open>range_pattern_found\<close>).
\<close>

declare rx_search.simps [simp del]

declare rx_match.simps [simp del]

lemma takeWhile_covers:
  "list_all P w \<Longrightarrow> length w \<le> length (takeWhile P (w @ r))"
  by (induction w) auto

lemma take_within_takeWhile:
  "k \<le> length (takeWhile P xs) \<Longrightarrow> list_all P (take k xs)"
proof (induction xs arbitrary: k)
  case Nil
  then show ?case by simp
next
  case (Cons x xs)
  then show ?case by (cases k) (auto split: if_splits)
qed

lemma rx_match_Seq_iff:
  "s2 \<in> set (rx_match ic (Seq r1 r2) st)
     \<longleftrightarrow> (\<exists>s1 \<in> set (rx_match ic r1 st). s2 \<in> set (rx_match ic r2 s1))"
  by (auto simp: rx_match.simps)

lemma rx_match_Alt_iff:
  "s1 \<in> set (rx_match ic (Alt r1 r2) st)
     \<longleftrightarrow> s1 \<in> set (rx_match ic r1 st) \<or> s1 \<in> set (rx_match ic r2 st)"
  by (auto simp: rx_match.simps)

lemma rx_match_Group_iff:
  "s2 \<in> set (rx_match ic (Group r) st)
     \<longleftrightarrow> (\<exists>s1 \<in> set (rx_match ic r st).
            s2 = s1\<lparr> captures := captures s1
                         @ [take (length (rest st) - length (rest s1)) (rest st)] \<rparr>)"
  by (auto simp: rx_match.simps)

lemma rx_match_Rep_iff:
  "s1 \<in> set (rx_match ic (Rep c lo hi) st)
     \<longleftrightarrow> (\<exists>k. lo \<le> k \<and> k \<le> length (takeWhile (in_class c) (rest st))
              \<and> (\<forall>h. hi = Some h \<longrightarrow> k \<le> h) \<and> s1 = advance k st)"
proof -
  define run where "run = length (takeWhile (in_class c) (rest st))"
  define most where "most = (case hi of None \<Rightarrow> run | Some h \<Rightarrow> min run h)"
  have "set (rx_match ic (Rep c lo hi) st) = (\<lambda>k. advance k st) ` {lo..most}"
    unfolding run_def most_def
    by (simp add: rx_match.simps Let_def atLeastLessThanSuc_atLeastAtMost del: upt_Suc)
  moreover have "{lo..most} = {k. lo \<le> k \<and> k \<le> run \<and> (\<forall>h. hi = Some h \<longrightarrow> k \<le> h)}"
    unfolding most_def by (cases hi) auto
  ultimately have "set (rx_match ic (Rep c lo hi) st) =
      (\<lambda>k. advance k st) ` {k. lo \<le> k \<and> k \<le> run \<and> (\<forall>h. hi = Some h \<longrightarrow> k \<le> h)}"
    by simp
  then show ?thesis
    unfolding run_def by blast
qed

lemma rx_match_Lit_iff:
  "s1 \<in> set (rx_match False (Lit l) st)
     \<longleftrightarrow> (\<exists>r. rest st = l @ r) \<and> s1 = advance (length l) st"
proof -
  have "length l \<le> length (rest st) \<and> take (length l) (rest st) = l \<longleftrightarrow> (\<exists>r. rest st = l @ r)"
    by (metis append_eq_conv_conj append_take_drop_id length_append le_add1)
  then show ?thesis
    by (auto simp: rx_match.simps same_text_def)
qed

lemma rest_advance: "rest st = w @ r \<Longrightarrow> rest (advance (length w) st) = r"
  by (simp add: advance_def)

lemma captures_advance: "captures (advance k st) = captures st"
  by (simp add: advance_def)

lemma rep_consumes:
  assumes "s1 \<in> set (rx_match ic (Rep c lo hi) st)"
  obtains w where "rest st = w @ rest s1" and "list_all (in_class c) w" and "lo \<le> length w"
    and "\<forall>h. hi = Some h \<longrightarrow> length w \<le> h" and "captures s1 = captures st"
proof -
  from assms obtain k where k: "lo \<le> k" "k \<le> length (takeWhile (in_class c) (rest st))"
      "\<forall>h. hi = Some h \<longrightarrow> k \<le> h" "s1 = advance k st"
    by (auto simp: rx_match_Rep_iff)
  have kl: "k \<le> length (rest st)"
    using k(2) length_takeWhile_le [of "in_class c" "rest st"] by linarith
  show ?thesis
  proof (rule that [of "take k (rest st)"])
    show "rest st = take k (rest st) @ rest s1" using k(4) by (simp add: advance_def)
    show "list_all (in_class c) (take k (rest st))" using k(2) by (rule take_within_takeWhile)
    show "lo \<le> length (take k (rest st))" using k(1) kl by simp
    show "\<forall>h. hi = Some h \<longrightarrow> length (take k (rest st)) \<le> h" using k(3) kl by simp
    show "captures s1 = captures st" using k(4) by (simp add: advance_def)
  qed
qed

lemma lit_consumes:
  assumes "s1 \<in> set (rx_match False (Lit l) st)"
  shows "rest st = l @ rest s1 \<and> captures s1 = captures st"
  using assms by (auto simp: rx_match_Lit_iff advance_def)

lemma date_consumes:
  assumes "s1 \<in> set (rx_match False rx_date st)"
  obtains d where "rest st = d @ rest s1" and "is_date_text d" and "captures s1 = captures st"
proof -
  from assms obtain a b c e where
    a: "a \<in> set (rx_match False (Rep Digit 4 (Some 4)) st)" and
    b: "b \<in> set (rx_match False (Lit ''-'') a)" and
    c: "c \<in> set (rx_match False (Rep Digit 2 (Some 2)) b)" and
    e: "e \<in> set (rx_match False (Lit ''-'') c)" and
    f: "s1 \<in> set (rx_match False (Rep Digit 2 (Some 2)) e)"
    unfolding rx_date_def seqs.simps rx_match_Seq_iff by blast
  from a obtain y where y: "rest st = y @ rest a" "list_all (in_class Digit) y" "length y = 4"
      "captures a = captures st"
    by (rule rep_consumes) auto
  from c obtain m where m: "rest b = m @ rest c" "list_all (in_class Digit) m" "length m = 2"
      "captures c = captures b"
    by (rule rep_consumes) auto
  from f obtain dd where dd: "rest e = dd @ rest s1" "list_all (in_class Digit) dd" "length dd = 2"
      "captures s1 = captures e"
    by (rule rep_consumes) auto
  from lit_consumes [OF b] have b': "rest a = ''-'' @ rest b" "captures b = captures a" by auto
  from lit_consumes [OF e] have e': "rest c = ''-'' @ rest e" "captures e = captures c" by auto
  show ?thesis
  proof (rule that [of "y @ ''-'' @ m @ ''-'' @ dd"])
    show "rest st = (y @ ''-'' @ m @ ''-'' @ dd) @ rest s1"
      using y(1) b'(1) m(1) e'(1) dd(1) by simp
    show "is_date_text (y @ ''-'' @ m @ ''-'' @ dd)"
      using y(2,3) m(2,3) dd(2,3) by (simp add: is_date_text_def nth_append)
    show "captures s1 = captures st"
      using y(4) b'(2) m(4) e'(2) dd(4) by simp
  qed
qed

lemma range_consumes:
  assumes "s1 \<in> set (rx_match False rx_range st)"
  obtains d1 ws sep ws' d2 where
    "rest st = d1 @ ws @ sep @ ws' @ d2 @ rest s1"
    and "is_date_text d1" and "is_date_text d2"
    and "list_all (in_class Space) ws" and "list_all (in_class Space) ws'"
    and "sep = ''to'' \<or> sep = ''-''"
    and "captures s1 = captures st @ [d1, sep, d2]"
proof -
  from assms obtain a b c e where
    a: "a \<in> set (rx_match False (Group rx_date) st)" and
    b: "b \<in> set (rx_match False (Rep Space 0 None) a)" and
    c: "c \<in> set (rx_match False (Group (Alt (Lit ''to'') (Lit ''-''))) b)" and
    e: "e \<in> set (rx_match False (Rep Space 0 None) c)" and
    f: "s1 \<in> set (rx_match False (Group rx_date) e)"
    unfolding rx_range_def seqs.simps rx_match_Seq_iff by blast
  from a obtain a0 where a0: "a0 \<in> set (rx_match False rx_date st)"
      "a = a0\<lparr> captures := captures a0 @ [take (length (rest st) - length (rest a0)) (rest st)] \<rparr>"
    unfolding rx_match_Group_iff by blast
  from a0(1) obtain d1 where d1: "rest st = d1 @ rest a0" "is_date_text d1"
      "captures a0 = captures st"
    by (rule date_consumes)
  have a': "rest st = d1 @ rest a" "captures a = captures st @ [d1]"
    using a0(2) d1 by simp_all
  from b obtain ws where ws: "rest a = ws @ rest b" "list_all (in_class Space) ws"
      "captures b = captures a"
    by (rule rep_consumes)
  from c obtain c0 where c0: "c0 \<in> set (rx_match False (Alt (Lit ''to'') (Lit ''-'')) b)"
      "c = c0\<lparr> captures := captures c0 @ [take (length (rest b) - length (rest c0)) (rest b)] \<rparr>"
    unfolding rx_match_Group_iff by blast
  from c0(1) have "c0 \<in> set (rx_match False (Lit ''to'') b)
      \<or> c0 \<in> set (rx_match False (Lit ''-'') b)"
    by (simp only: rx_match_Alt_iff)
  then obtain sep where sep: "sep = ''to'' \<or> sep = ''-''" "rest b = sep @ rest c0"
      "captures c0 = captures b"
  proof
    assume "c0 \<in> set (rx_match False (Lit ''to'') b)"
    from lit_consumes [OF this] that [of "''to''"] show thesis by simp
  next
    assume "c0 \<in> set (rx_match False (Lit ''-'') b)"
    from lit_consumes [OF this] that [of "''-''"] show thesis by simp
  qed
  have c': "rest b = sep @ rest c" "captures c = captures b @ [sep]"
    using c0(2) sep by simp_all
  from e obtain ws' where ws': "rest c = ws' @ rest e" "list_all (in_class Space) ws'"
      "captures e = captures c"
    by (rule rep_consumes)
  from f obtain f0 where f0: "f0 \<in> set (rx_match False rx_date e)"
      "s1 = f0\<lparr> captures := captures f0 @ [take (length (rest e) - length (rest f0)) (rest e)] \<rparr>"
    unfolding rx_match_Group_iff by blast
  from f0(1) obtain d2 where d2: "rest e = d2 @ rest f0" "is_date_text d2"
      "captures f0 = captures e"
    by (rule date_consumes)
  have f': "rest e = d2 @ rest s1" "captures s1 = captures e @ [d2]"
    using f0(2) d2 by simp_all
  show ?thesis
  proof (rule that [of d1 ws sep ws' d2])
    show "rest st = d1 @ ws @ sep @ ws' @ d2 @ rest s1"
      using a'(1) ws(1) c'(1) ws'(1) f'(1) by simp
    show "captures s1 = captures st @ [d1, sep, d2]"
      using a'(2) ws(3) c'(2) ws'(3) f'(2) by simp
  qed (insert d1 d2 ws ws' sep, auto)
qed

lemma rx_search_sound:
  "rx_search ic r prev str = Some caps \<Longrightarrow>
   \<exists>pre suf p s1. str = pre @ suf
      \<and> s1 \<in> set (rx_match ic r \<lparr> prev_char = p, rest = suf, captures = [] \<rparr>)
      \<and> caps = captures s1"
proof (induction ic r prev str rule: rx_search.induct)
  case (1 ic r prev str)
  show ?case
  proof (cases "rx_match ic r \<lparr> prev_char = prev, rest = str, captures = [] \<rparr>")
    case (Cons st sts)
    with "1.prems" have "caps = captures st"
      by (simp add: rx_search.simps)
    with Cons show ?thesis
      by (metis append_Nil list.set_intros(1))
  next
    case Nil
    show ?thesis
    proof (cases str)
      case Nil
      with \<open>rx_match ic r \<lparr> prev_char = prev, rest = str, captures = [] \<rparr> = []\<close> "1.prems"
      show ?thesis by (simp add: rx_search.simps)
    next
      case (Cons c cs)
      with \<open>rx_match ic r \<lparr> prev_char = prev, rest = str, captures = [] \<rparr> = []\<close> "1.prems"
      have "rx_search ic r (Some c) cs = Some caps"
        by (simp add: rx_search.simps)
      from "1.IH" [OF \<open>rx_match ic r \<lparr> prev_char = prev, rest = str, captures = [] \<rparr> = []\<close> Cons this]
      obtain pre suf p s1 where "cs = pre @ suf"
        "s1 \<in> set (rx_match ic r \<lparr> prev_char = p, rest = suf, captures = [] \<rparr>)"
        "caps = captures s1"
        by blast
      with Cons show ?thesis
        by (metis append_Cons)
    qed
  qed
qed

lemma range_match_is_occurrence:
  assumes "match_rx rx_range q = Some caps"
  shows "\<exists>pre d1 ws sep ws' d2 post.
           caps = [d1, sep, d2] \<and> q = pre @ d1 @ ws @ sep @ ws' @ d2 @ post
           \<and> is_date_text d1 \<and> is_date_text d2
           \<and> list_all (in_class Space) ws \<and> list_all (in_class Space) ws'
           \<and> (sep = ''to'' \<or> sep = ''-'')"
proof -
  from assms have "rx_search False rx_range None q = Some caps"
    by (simp add: match_rx_def)
  from rx_search_sound [OF this] obtain pre suf p s1 where s: "q = pre @ suf"
      "s1 \<in> set (rx_match False rx_range \<lparr> prev_char = p, rest = suf, captures = [] \<rparr>)"
      "caps = captures s1"
    by blast
  from s(2) obtain d1 ws sep ws' d2 where r:
    "rest \<lparr> prev_char = p, rest = suf, captures = [] \<rparr> = d1 @ ws @ sep @ ws' @ d2 @ rest s1"
    "is_date_text d1" "is_date_text d2"
    "list_all (in_class Space) ws" "list_all (in_class Space) ws'"
    "sep = ''to'' \<or> sep = ''-''"
    "captures s1 = captures \<lparr> prev_char = p, rest = suf, captures = [] \<rparr> @ [d1, sep, d2]"
    by (rule range_consumes)
  have suf: "suf = d1 @ ws @ sep @ ws' @ d2 @ rest s1"
    using r(1) by simp
  have caps: "caps = [d1, sep, d2]"
    using r(7) s(3) by simp
  have "q = pre @ d1 @ ws @ sep @ ws' @ d2 @ rest s1"
    using s(1) suf by simp
  with caps r(2-6) show ?thesis
    by blast
qed

lemma rep_takes:
  assumes "rest st = w @ r" and "list_all (in_class c) w" and "lo \<le> length w"
    and "\<forall>h. hi = Some h \<longrightarrow> length w \<le> h"
  shows "advance (length w) st \<in> set (rx_match ic (Rep c lo hi) st)"
  unfolding rx_match_Rep_iff
  using assms takeWhile_covers [of "in_class c" w r] by auto

lemma lit_takes:
  assumes "rest st = l @ r"
  shows "advance (length l) st \<in> set (rx_match False (Lit l) st)"
  unfolding rx_match_Lit_iff using assms by auto

lemma date_text_parts:
  assumes "is_date_text d"
  obtains y m dd where "d = y @ ''-'' @ m @ ''-'' @ dd"
    and "length y = 4" and "length m = 2" and "length dd = 2"
    and "list_all (in_class Digit) y" and "list_all (in_class Digit) m"
    and "list_all (in_class Digit) dd"
proof -
  from assms have l: "length d = 10" and d4: "d ! 4 = CHR ''-''" and d7: "d ! 7 = CHR ''-''"
    and y: "list_all (in_class Digit) (take 4 d)"
    and m: "list_all (in_class Digit) (take 2 (drop 5 d))"
    and dd: "list_all (in_class Digit) (drop 8 d)"
    by (simp_all add: is_date_text_def)
  have "drop 4 d = d ! 4 # drop 5 d"
    using Cons_nth_drop_Suc [of 4 d] l by simp
  moreover have "drop 7 d = d ! 7 # drop 8 d"
    using Cons_nth_drop_Suc [of 7 d] l by simp
  moreover have "drop 5 d = take 2 (drop 5 d) @ drop 7 d"
    using append_take_drop_id [of 2 "drop 5 d"] by simp
  moreover have "d = take 4 d @ drop 4 d"
    by simp
  ultimately have "d = take 4 d @ ''-'' @ take 2 (drop 5 d) @ ''-'' @ drop 8 d"
    using d4 d7 by simp
  then show ?thesis
    using l y m dd by (intro that [of "take 4 d" "take 2 (drop 5 d)" "drop 8 d"]) simp_all
qed

lemma date_takes:
  assumes "is_date_text d" and "rest st = d @ r"
  shows "\<exists>s1 \<in> set (rx_match False rx_date st). rest s1 = r \<and> captures s1 = captures st"
proof -
  from assms(1) obtain y m dd where p: "d = y @ ''-'' @ m @ ''-'' @ dd"
      "length y = 4" "length m = 2" "length dd = 2"
      "list_all (in_class Digit) y" "list_all (in_class Digit) m" "list_all (in_class Digit) dd"
    by (rule date_text_parts)
  define a where "a = advance (length y) st"
  define b where "b = advance (length ''-'') a"
  define c where "c = advance (length m) b"
  define e where "e = advance (length ''-'') c"
  define f where "f = advance (length dd) e"
  have ra: "rest st = y @ (''-'' @ m @ ''-'' @ dd @ r)"
    using assms(2) p(1) by simp
  have rb: "rest a = ''-'' @ (m @ ''-'' @ dd @ r)"
    unfolding a_def using rest_advance [OF ra] by simp
  have rc: "rest b = m @ (''-'' @ dd @ r)"
    unfolding b_def using rest_advance [OF rb] by simp
  have re: "rest c = ''-'' @ (dd @ r)"
    unfolding c_def using rest_advance [OF rc] by simp
  have rf: "rest e = dd @ r"
    unfolding e_def using rest_advance [OF re] by simp
  have "a \<in> set (rx_match False (Rep Digit 4 (Some 4)) st)"
    unfolding a_def using ra p(5) p(2) by (intro rep_takes) auto
  moreover have "b \<in> set (rx_match False (Lit ''-'') a)"
    unfolding b_def using rb by (rule lit_takes)
  moreover have "c \<in> set (rx_match False (Rep Digit 2 (Some 2)) b)"
    unfolding c_def using rc p(6) p(3) by (intro rep_takes) auto
  moreover have "e \<in> set (rx_match False (Lit ''-'') c)"
    unfolding e_def using re by (rule lit_takes)
  moreover have "f \<in> set (rx_match False (Rep Digit 2 (Some 2)) e)"
    unfolding f_def using rf p(7) p(4) by (intro rep_takes) auto
  ultimately have "f \<in> set (rx_match False rx_date st)"
    unfolding rx_date_def seqs.simps rx_match_Seq_iff by blast
  moreover have "rest f = r"
    unfolding f_def using rest_advance [OF rf] by simp
  moreover have "captures f = captures st"
    unfolding f_def e_def c_def b_def a_def by (simp add: captures_advance)
  ultimately show ?thesis by blast
qed

lemma group_takes:
  assumes "s1 \<in> set (rx_match ic r st)" and "rest st = w @ rest s1"
  shows "\<exists>s2 \<in> set (rx_match ic (Group r) st).
           rest s2 = rest s1 \<and> captures s2 = captures s1 @ [w]"
proof -
  have "s1\<lparr> captures := captures s1 @ [take (length (rest st) - length (rest s1)) (rest st)] \<rparr>
          \<in> set (rx_match ic (Group r) st)"
    unfolding rx_match_Group_iff using assms(1) by blast
  moreover have "take (length (rest st) - length (rest s1)) (rest st) = w"
    using assms(2) by simp
  ultimately show ?thesis
    by (intro bexI [of _ "s1\<lparr> captures := captures s1 @ [w] \<rparr>"]) simp_all
qed

lemma range_takes:
  assumes "is_date_text d1" and "is_date_text d2"
    and "list_all (in_class Space) ws" and "list_all (in_class Space) ws'"
    and "sep = ''to'' \<or> sep = ''-''"
    and "rest st = d1 @ ws @ sep @ ws' @ d2 @ post"
  shows "\<exists>s1 \<in> set (rx_match False rx_range st). captures s1 = captures st @ [d1, sep, d2]"
proof -
  from date_takes [OF assms(1), of st "ws @ sep @ ws' @ d2 @ post"] assms(6)
  obtain a0 where a0: "a0 \<in> set (rx_match False rx_date st)"
      "rest a0 = ws @ sep @ ws' @ d2 @ post" "captures a0 = captures st"
    by auto
  from group_takes [OF a0(1), of d1] a0 assms(6)
  obtain a where a: "a \<in> set (rx_match False (Group rx_date) st)"
      "rest a = ws @ sep @ ws' @ d2 @ post" "captures a = captures st @ [d1]"
    by auto
  define b where "b = advance (length ws) a"
  have b: "b \<in> set (rx_match False (Rep Space 0 None) a)"
    unfolding b_def using a(2) assms(3) by (intro rep_takes) auto
  have rb: "rest b = sep @ ws' @ d2 @ post"
    unfolding b_def using rest_advance [OF a(2)] by simp
  have cb: "captures b = captures st @ [d1]"
    unfolding b_def using a(3) by (simp add: captures_advance)
  define c0 where "c0 = advance (length sep) b"
  have "c0 \<in> set (rx_match False (Lit sep) b)"
    unfolding c0_def using rb by (rule lit_takes)
  with assms(5) have c0: "c0 \<in> set (rx_match False (Alt (Lit ''to'') (Lit ''-'')) b)"
    unfolding rx_match_Alt_iff by auto
  have rc0: "rest c0 = ws' @ d2 @ post"
    unfolding c0_def using rest_advance [OF rb] by simp
  have "rest b = sep @ rest c0"
    using rb rc0 by simp
  from group_takes [OF c0 this]
  obtain c where c: "c \<in> set (rx_match False (Group (Alt (Lit ''to'') (Lit ''-''))) b)"
      "rest c = rest c0" "captures c = captures c0 @ [sep]"
    by auto
  have cc: "captures c = captures st @ [d1, sep]"
    using c(3) cb unfolding c0_def by (simp add: captures_advance)
  have rc: "rest c = ws' @ d2 @ post"
    using c(2) rc0 by simp
  define e where "e = advance (length ws') c"
  have e: "e \<in> set (rx_match False (Rep Space 0 None) c)"
    unfolding e_def using rc assms(4) by (intro rep_takes) auto
  have re: "rest e = d2 @ post"
    unfolding e_def using rest_advance [OF rc] by simp
  have ce: "captures e = captures st @ [d1, sep]"
    unfolding e_def using cc by (simp add: captures_advance)
  from date_takes [OF assms(2) re]
  obtain f0 where f0: "f0 \<in> set (rx_match False rx_date e)" "rest f0 = post"
      "captures f0 = captures e"
    by auto
  have "rest e = d2 @ rest f0"
    using re f0(2) by simp
  from group_takes [OF f0(1) this]
  obtain f where f: "f \<in> set (rx_match False (Group rx_date) e)"
      "captures f = captures f0 @ [d2]"
    by auto
  have "f \<in> set (rx_match False rx_range st)"
    unfolding rx_range_def seqs.simps rx_match_Seq_iff using a(1) b c(1) e f(1) by blast
  moreover have "captures f = captures st @ [d1, sep, d2]"
    using f(2) f0(3) ce by simp
  ultimately show ?thesis by blast
qed

lemma rx_search_complete:
  assumes "\<And>p. rx_match ic r \<lparr> prev_char = p, rest = suf, captures = [] \<rparr> \<noteq> []"
  shows "rx_search ic r prev (pre @ suf) \<noteq> None"
proof (induction pre arbitrary: prev)
  case Nil
  from assms [of prev] show ?case
    by (cases "rx_match ic r \<lparr> prev_char = prev, rest = suf, captures = [] \<rparr>")
       (simp_all add: rx_search.simps)
next
  case (Cons c cs)
  show ?case
  proof (cases "rx_match ic r \<lparr> prev_char = prev, rest = (c # cs) @ suf, captures = [] \<rparr>")
    case Nil
    with Cons.IH [of "Some c"] show ?thesis
      by (simp add: rx_search.simps)
  next
    case (Cons st sts)
    then show ?thesis
      by (simp add: rx_search.simps)
  qed
qed

lemma range_pattern_found:
  assumes "is_date_text d1" and "is_date_text d2"
    and "list_all (in_class Space) ws" and "list_all (in_class Space) ws'"
    and "sep = ''to'' \<or> sep = ''-''"
  shows "\<exists>e1 s e2. match_rx rx_range (pre @ d1 @ ws @ sep @ ws' @ d2 @ post) = Some [e1, s, e2]"
proof -
  have "rx_match False rx_range
          \<lparr> prev_char = p, rest = d1 @ ws @ sep @ ws' @ d2 @ post, captures = [] \<rparr> \<noteq> []" for p
    using range_takes [OF assms,
        of "\<lparr> prev_char = p, rest = d1 @ ws @ sep @ ws' @ d2 @ post, captures = [] \<rparr>" post]
    by auto
  then have "rx_search False rx_range None (pre @ d1 @ ws @ sep @ ws' @ d2 @ post) \<noteq> None"
    by (rule rx_search_complete)
  then obtain caps where
    c: "match_rx rx_range (pre @ d1 @ ws @ sep @ ws' @ d2 @ post) = Some caps"
    by (auto simp: match_rx_def)
  from range_match_is_occurrence [OF c] c show ?thesis
    by auto
qed

section \<open>Facts about the calendar\<close>

text \<open>
  \<open>YearFromDay\<close> is the year function of the language definition: \<open>DayFromYear\<close> is
  strictly increasing, and \<open>YearFromDay d\<close> is the year \<open>y\<close> with
  \<open>DayFromYear y \<le> d < DayFromYear (y + 1)\<close>, the largest year that starts on or
  before the day \<open>d\<close>.
\<close>

lemma div_bounds:
  fixes x :: int
  shows "4 * (x div 4) \<le> x" "x \<le> 4 * (x div 4) + 3"
        "100 * (x div 100) \<le> x" "x \<le> 100 * (x div 100) + 99"
        "400 * (x div 400) \<le> x" "x \<le> 400 * (x div 400) + 399"
  by simp_all

lemma DayFromYear_bounds:
  "146097 * y - 506 \<le> 400 * DayFromYear y + 287811090"
  "400 * DayFromYear y + 287811090 \<le> 146097 * y + 589"
proof -
  define a where "a = (y - 1969) div 4"
  define b where "b = (y - 1901) div 100"
  define c where "c = (y - 1601) div 400"
  have e: "365 * (y - 1970) = 365 * y - 719050"
    by simp
  have d: "DayFromYear y = 365 * y - 719050 + a - b + c"
    unfolding DayFromYear_def a_def b_def c_def by (simp only: e)
  have "4 * a \<le> y - 1969" "y - 1969 \<le> 4 * a + 3"
       "100 * b \<le> y - 1901" "y - 1901 \<le> 100 * b + 99"
       "400 * c \<le> y - 1601" "y - 1601 \<le> 400 * c + 399"
    unfolding a_def b_def c_def by (rule div_bounds)+
  then have f: "4 * a \<le> y - 1969" "y - 1969 \<le> 4 * a + 3"
       "100 * b \<le> y - 1901" "y - 1901 \<le> 100 * b + 99"
       "400 * c \<le> y - 1601" "y - 1601 \<le> 400 * c + 399" .
  have m: "400 * DayFromYear y = 146000 * y - 287620000 + 400 * a - 400 * b + 400 * c"
    unfolding d by simp
  show "146097 * y - 506 \<le> 400 * DayFromYear y + 287811090"
    unfolding m using f by linarith
  show "400 * DayFromYear y + 287811090 \<le> 146097 * y + 589"
    unfolding m using f by linarith
qed

lemma DayFromYear_increasing: "DayFromYear y < DayFromYear (y + 1)"
proof -
  define a where "a = (y - 1969) div 4"
  define b where "b = (y - 1901) div 100"
  define c where "c = (y - 1601) div 400"
  define a' where "a' = (y + 1 - 1969) div 4"
  define b' where "b' = (y + 1 - 1901) div 100"
  define c' where "c' = (y + 1 - 1601) div 400"
  have e: "365 * (y - 1970) = 365 * y - 719050"
    by simp
  have d: "DayFromYear y = 365 * y - 719050 + a - b + c"
    unfolding DayFromYear_def a_def b_def c_def by (simp only: e)
  have e': "365 * (y + 1 - 1970) = 365 * y - 718685"
    by simp
  have d': "DayFromYear (y + 1) = 365 * y - 718685 + a' - b' + c'"
    unfolding DayFromYear_def a'_def b'_def c'_def by (simp only: e')
  have "a \<le> a'"
    unfolding a_def a'_def by (rule zdiv_mono1) simp_all
  moreover have "c \<le> c'"
    unfolding c_def c'_def by (rule zdiv_mono1) simp_all
  moreover have "100 * b' \<le> y + 1 - 1901" "y - 1901 \<le> 100 * b + 99"
    unfolding b_def b'_def by (rule div_bounds)+
  then have "b' \<le> b + 1" by linarith
  ultimately show ?thesis
    unfolding d d' by linarith
qed

lemma YearFromDay_correct:
  "DayFromYear (YearFromDay d) \<le> d \<and> d < DayFromYear (YearFromDay d + 1)"
proof -
  define y0 where "y0 = 1970 + (d * 400) div 146097"
  define k where "k = (d * 400) div 146097"
  have "146097 * k \<le> d * 400" "d * 400 < 146097 * k + 146097"
    unfolding k_def by simp_all
  moreover have "y0 = 1970 + k"
    unfolding y0_def k_def by simp
  ultimately have q: "146097 * y0 \<le> 400 * d + 287811090" "400 * d + 287811090 < 146097 * y0 + 146097"
    by linarith+
  note b = DayFromYear_bounds [of "y0 - 1"] DayFromYear_bounds [of y0]
    DayFromYear_bounds [of "y0 + 1"] DayFromYear_bounds [of "y0 + 2"]
  have "DayFromYear (year_near d y0) \<le> d \<and> d < DayFromYear (year_near d y0 + 1)"
  proof (cases "DayFromYear y0 > d")
    case True
    moreover have "146097 * (y0 - 1) = 146097 * y0 - 146097"
      by simp
    then have "DayFromYear (y0 - 1) \<le> d"
      using q b(2) by linarith
    ultimately show ?thesis by (simp add: year_near_def)
  next
    case False
    show ?thesis
    proof (cases "DayFromYear (y0 + 1) \<le> d")
      case True
      have r: "year_near d y0 = y0 + 1"
        using \<open>\<not> DayFromYear y0 > d\<close> True by (simp add: year_near_def)
      have "146097 * (y0 + 2) = 146097 * y0 + 292194"
        by simp
      then have u: "d < DayFromYear (y0 + 2)"
        using q b(7) by linarith
      have "y0 + 1 + 1 = y0 + 2"
        by simp
      then have "d < DayFromYear (y0 + 1 + 1)"
        using u by (simp only:)
      with True show ?thesis
        unfolding r by blast
    next
      case False
      with \<open>\<not> DayFromYear y0 > d\<close> show ?thesis by (simp add: year_near_def)
    qed
  qed
  then show ?thesis
    by (simp add: YearFromDay_def y0_def)
qed

text \<open>
  The calendar functions at known dates: the epoch, the two ends of the range of time
  values, the last day of February in a leap year and in a common year, and the day before
  the first of January.
\<close>

lemma calendar_checks:
  "toISOString (Some 0) = Inr ''1970-01-01T00:00:00.000Z''"
  "toISOString (Some 8640000000000000) = Inr ''+275760-09-13T00:00:00.000Z''"
  "toISOString (Some (- 8640000000000000)) = Inr ''-271821-04-20T00:00:00.000Z''"
  "toISOString (TimeClip 8640000000000001) = Inl RangeError_invalid_time"
  "formatDate (new_Date_ymd (Some 2024) (Some 1) (Some 29)) = Inr ''2024-02-29''"
  "formatDate (new_Date_ymd (Some 2023) (Some 1) (Some 29)) = Inr ''2023-03-01''"
  "formatDate (new_Date_ymd (Some 2026) (Some 0) (Some 0)) = Inr ''2025-12-31''"
  "formatDate (new_Date_ymd (Some 2026) (Some (- 1)) (Some 1)) = Inr ''2025-12-01''"
  by code_simp+

section \<open>Date range resolver: the claims\<close>

lemma default_range_computed:
  assumes "clock_ok now"
  shows "\<exists>todayStr weekAgo.
           formatDate (new_Date_now now) = Inr todayStr
           \<and> toISOString (new_Date_value (minus_num (getTime (new_Date_now now))
                                                       (7 * 24 * 60 * 60 * 1000))) = Inr weekAgo"
  using assms
  by (auto simp: clock_ok_def formatDate_def toISOString_def new_Date_now_def
      new_Date_value_def TimeClip_def minus_num_def getTime_def)

lemma parse_explicit_range:
  assumes "match_rx rx_range (toLowerCase query) = Some [d1, sep, d2]"
      and "formatDate today = Inr todayStr"
  shows "parseDateRangeFromQuery query today =
           Inr (Some \<lparr> startDate = d1, endDate = d2, usesCustomRange = True \<rparr>)"
  using assms by (simp add: parseDateRangeFromQuery_def Let_def)

lemma today_2026_11_02: "formatDate (new_Date_now clock_2026_11_02) = Inr ''2026-11-02''"
  by code_simp

lemma clock_ok_2026_11_02: "clock_ok clock_2026_11_02"
  by (simp add: clock_ok_def clock_2026_11_02_def)

text \<open>
  C2: for every query and every today-date the returned range satisfies
  \<open>startDate \<le> endDate \<le> today\<close>.  The code breaks it.  On 2026-11-02, the query
  \<open>How did I sleep from 2099-01-01 to 2098-01-01?\<close> yields the swapped range
  2098-01-01 to 2099-01-01, whose end is not clamped to today (the swap returns at once);
  and \<open>How did I sleep on 2099-01-01?\<close> yields 2099-01-01 to 2026-11-02, the end
  clamped below the start.
\<close>

theorem C2_range_invariant_broken:
  "formatDate (new_Date_now clock_2026_11_02) = Inr ''2026-11-02''
   \<and> extractDateRange ''How did I sleep from 2099-01-01 to 2098-01-01?'' failing_ai
         clock_2026_11_02
       = Inr \<lparr> startDate = ''2098-01-01'', endDate = ''2099-01-01'', usesCustomRange = True \<rparr>
   \<and> \<not> ''2099-01-01'' \<le> ''2026-11-02''
   \<and> extractDateRange ''How did I sleep on 2099-01-01?'' failing_ai clock_2026_11_02
       = Inr \<lparr> startDate = ''2099-01-01'', endDate = ''2026-11-02'', usesCustomRange = True \<rparr>
   \<and> \<not> ''2099-01-01'' \<le> ''2026-11-02''"
  by code_simp

text \<open>
  What the normalisation does ensure: a start that is not after today is not after the
  end; and the end is not after today unless the heuristics found an inverted range.
\<close>

lemma range_partial_invariant:
  assumes "extractDateRange query ai now = Inr r"
      and "formatDate (new_Date_now now) = Inr todayStr"
  shows "(startDate r \<le> todayStr \<longrightarrow> startDate r \<le> endDate r)
       \<and> ((\<forall>p. parseDateRangeFromQuery query (new_Date_now now) = Inr (Some p)
                  \<longrightarrow> startDate p \<le> endDate p)
            \<longrightarrow> endDate r \<le> todayStr)"
  using assms
  by (auto simp: extractDateRange_def Let_def
      split: sum.splits option.splits if_splits prod.splits)

text \<open>
  C5 (as stated): a query with an explicit two-date pattern yields exactly that pair,
  swapped when inverted.  This fails when the pair is in order and its end lies after
  today: on 2026-11-02 the query \<open>2026-01-01 to 2099-01-01\<close> yields the end 2026-11-02.
\<close>

theorem C5_future_end_counterexample:
  "match_rx rx_range (toLowerCase ''How did I sleep from 2026-01-01 to 2099-01-01?'')
     = Some [''2026-01-01'', ''to'', ''2099-01-01'']
   \<and> \<not> ''2026-01-01'' > ''2099-01-01''
   \<and> extractDateRange ''How did I sleep from 2026-01-01 to 2099-01-01?'' failing_ai
         clock_2026_11_02
       = Inr \<lparr> startDate = ''2026-01-01'', endDate = ''2026-11-02'', usesCustomRange = True \<rparr>
   \<and> extractDateRange ''How did I sleep from 2026-01-01 to 2099-01-01?'' failing_ai
         clock_2026_11_02
       \<noteq> Inr \<lparr> startDate = ''2026-01-01'', endDate = ''2099-01-01'', usesCustomRange = True \<rparr>"
  by code_simp

text \<open>
  C5 (amended): for every query in which the pattern
  \<open>YYYY-MM-DD (to|-) YYYY-MM-DD\<close> matches (case-insensitively), with \<open>d1\<close> and \<open>d2\<close>
  the two dates of the leftmost match, \<open>extractDateRange\<close> returns
  \<open>usesCustomRange = true\<close> and: the pair swapped, \<open>d2\<close> to \<open>d1\<close>, when \<open>d1 > d2\<close>;
  otherwise \<open>d1\<close> to \<open>d2\<close>, with \<open>d2\<close> replaced by today's date when \<open>d2\<close> lies after
  today.
\<close>

theorem C5_explicit_range:
  assumes "match_rx rx_range (toLowerCase query) = Some [d1, sep, d2]"
      and "clock_ok now"
      and "formatDate (new_Date_now now) = Inr todayStr"
  shows "extractDateRange query ai now =
           Inr (if d1 > d2
                then \<lparr> startDate = d2, endDate = d1, usesCustomRange = True \<rparr>
                else \<lparr> startDate = d1, endDate = (if d2 > todayStr then todayStr else d2),
                       usesCustomRange = True \<rparr>)"
proof -
  from default_range_computed [OF assms(2)] obtain weekAgo where
    w: "toISOString (new_Date_value (minus_num (getTime (new_Date_now now))
                                               (7 * 24 * 60 * 60 * 1000))) = Inr weekAgo"
    by auto
  have p: "parseDateRangeFromQuery query (new_Date_now now) =
             Inr (Some \<lparr> startDate = d1, endDate = d2, usesCustomRange = True \<rparr>)"
    using assms(1,3) by (rule parse_explicit_range)
  show ?thesis
    using assms(3) w p by (simp add: extractDateRange_def Let_def)
qed

theorem C5_explicit_range_witness:
  "match_rx rx_range (toLowerCase ''Sleep 2026-01-05 TO 2026-01-01?'')
     = Some [''2026-01-05'', ''to'', ''2026-01-01'']
   \<and> clock_ok clock_2026_11_02
   \<and> formatDate (new_Date_now clock_2026_11_02) = Inr ''2026-11-02''
   \<and> extractDateRange ''Sleep 2026-01-05 TO 2026-01-01?'' failing_ai clock_2026_11_02
       = Inr \<lparr> startDate = ''2026-01-01'', endDate = ''2026-01-05'', usesCustomRange = True \<rparr>
   \<and> match_rx rx_range (toLowerCase ''2026-01-01 - 2099-01-01'')
     = Some [''2026-01-01'', ''-'', ''2099-01-01'']
   \<and> extractDateRange ''2026-01-01 - 2099-01-01'' failing_ai clock_2026_11_02
       = Inr \<lparr> startDate = ''2026-01-01'', endDate = ''2026-11-02'', usesCustomRange = True \<rparr>"
proof -
  have m1: "match_rx rx_range (toLowerCase ''Sleep 2026-01-05 TO 2026-01-01?'')
              = Some [''2026-01-05'', ''to'', ''2026-01-01'']"
    by code_simp
  have m2: "match_rx rx_range (toLowerCase ''2026-01-01 - 2099-01-01'')
              = Some [''2026-01-01'', ''-'', ''2099-01-01'']"
    by code_simp
  show ?thesis
    using C5_explicit_range [OF m1 clock_ok_2026_11_02 today_2026_11_02, of failing_ai]
          C5_explicit_range [OF m2 clock_ok_2026_11_02 today_2026_11_02, of failing_ai]
          m1 m2 clock_ok_2026_11_02 today_2026_11_02
    by simp
qed

text \<open>
  C8: \<open>extractDateRange\<close> never fails.  The code breaks it: on 2026-11-02 the query
  \<open>How did I sleep in the last 1000000000 days?\<close> makes \<open>parseDateRangeFromQuery\<close>,
  which runs outside the \<open>try\<close>, compute a start date outside the range of time values,
  and \<open>formatDate\<close> throws the \<open>RangeError\<close> of \<open>toISOString\<close>.
\<close>

theorem C8_huge_amount_throws:
  "extractDateRange ''How did I sleep in the last 1000000000 days?'' failing_ai clock_2026_11_02
     = Inl RangeError_invalid_time"
  by code_simp

text \<open>
  The other half of C8 holds: once the heuristics find no range, a call that throws, a reply
  without a JSON object, a \<open>JSON.parse\<close> that throws and an object lacking one of the two
  dates all yield the default range, the seven days ending today, not marked custom.
\<close>

lemma ai_failure_default_range:
  assumes p: "parseDateRangeFromQuery query (new_Date_now now) = Inr None"
      and t: "formatDate (new_Date_now now) = Inr todayStr"
      and w: "toISOString (new_Date_value (minus_num (getTime (new_Date_now now))
                                                     (7 * 24 * 60 * 60 * 1000))) = Inr weekAgo"
      and f: "(\<exists>err. extraction_reply ai todayStr query = Inl err)
              \<or> (\<exists>fullText. extraction_reply ai todayStr query = Inr fullText
                    \<and> (match_rx rx_json_object (trim fullText) = None
                       \<or> (\<exists>m. match_rx rx_json_object (trim fullText) = Some m
                            \<and> ((\<exists>err. JSON_parse ai (m ! 0) = Inl err)
                               \<or> (\<exists>sd ed. JSON_parse ai (m ! 0) = Inr (sd, ed)
                                     \<and> \<not> (truthy_str sd \<and> truthy_str ed))))))"
  shows "extractDateRange query ai now =
           Inr \<lparr> startDate = split_T_0 weekAgo, endDate = todayStr, usesCustomRange = False \<rparr>"
  using f p t w by (auto simp: extractDateRange_def Let_def truthy_str_def split: option.splits)

section \<open>Query route: the claims\<close>

lemma followup_query_default_range:
  "extractDateRange ''What about my heart rate?'' (date_model example_env)
     (clock_extract example_env)
   = Inr \<lparr> startDate = ''2026-10-26'', endDate = ''2026-11-02'', usesCustomRange = False \<rparr>"
  by code_simp

lemma followup_query_types:
  "detectRelevantDataTypes ''What about my heart rate?'' =
     \<lparr> sleep = False, activity = False, readiness = False, heartRate = True \<rparr>"
  by code_simp




text \<open>
  C7: when the session holds an unexpired cache entry and the range resolved for the
  current query is the non-custom default, the handler takes the entry's data as the
  dataset and rewrites the range to the entry's range with \<open>usesCustomRange\<close> true; it
  neither fetches nor writes the cache, and it does so whatever the entry's
  \<open>includedTypes\<close> and the types the query needs: nothing is assumed of them.  The
  response is then built from the entry's data.
\<close>

theorem C7_followup_reuses_entry_unchecked:
  assumes "extractDateRange query (date_model env) (clock_extract env) = Inr dateRange"
      and "\<not> usesCustomRange dateRange"
      and "cache queryCache (sessionID req) = Some entry"
      and "\<not> clock_get env - timestamp_ms entry > TTL queryCache"
  shows "resolve_dataset env req queryCache query =
           Inr (dateRange\<lparr> startDate := startDate entry, endDate := endDate entry,
                           usesCustomRange := True \<rparr>,
                detectRelevantDataTypes query, data entry, queryCache)
       \<and> (\<forall>history. safeParse_body req = Inr (query, history) \<and> isConnected req \<longrightarrow>
             handle_query env req queryCache =
               (respond env query history
                  (dateRange\<lparr> startDate := startDate entry, endDate := endDate entry,
                              usesCustomRange := True \<rparr>)
                  (detectRelevantDataTypes query) (data entry), queryCache))"
proof -
  have r: "resolve_dataset env req queryCache query =
             Inr (dateRange\<lparr> startDate := startDate entry, endDate := endDate entry,
                             usesCustomRange := True \<rparr>,
                  detectRelevantDataTypes query, data entry, queryCache)"
    using assms by (simp add: resolve_dataset_def get_def Let_def)
  show ?thesis
    using r by (simp add: handle_query_def)
qed

text \<open>
  On 2026-11-02, a session whose entry was cached for a question about sleep, heart rate
  not included, asks \<open>What about my heart rate?\<close>: the query needs heart rate only, the
  entry is reused, and the final event carries an empty heart-rate summary.
\<close>

theorem C7_followup_reuses_entry_unchecked_witness:
  "extractDateRange ''What about my heart rate?'' (date_model example_env)
     (clock_extract example_env)
     = Inr \<lparr> startDate = ''2026-10-26'', endDate = ''2026-11-02'', usesCustomRange = False \<rparr>
   \<and> cache sleep_only_cache (sessionID (example_request ''What about my heart rate?''))
       = Some sleep_only_entry
   \<and> \<not> clock_get example_env - timestamp_ms sleep_only_entry > TTL sleep_only_cache
   \<and> heartRate (detectRelevantDataTypes ''What about my heart rate?'')
   \<and> \<not> heartRate (includedTypes sleep_only_entry)
   \<and> resolve_dataset example_env (example_request ''What about my heart rate?'')
         sleep_only_cache ''What about my heart rate?''
       = Inr (\<lparr> startDate = ''2026-10-26'', endDate = ''2026-11-02'', usesCustomRange = True \<rparr>,
              \<lparr> sleep = False, activity = False, readiness = False, heartRate = True \<rparr>,
              data sleep_only_entry, sleep_only_cache)
   \<and> fst (handle_query example_env (example_request ''What about my heart rate?'')
            sleep_only_cache)
       = EventStream [ContentEvent ''Here is what I found.'',
                      DataDoneEvent (Some \<lparr> payload_sleep = None, payload_activity = None,
                                            payload_readiness = None,
                                            payload_heartRate = Some [] \<rparr>)]"
  using C7_followup_reuses_entry_unchecked
          [of "''What about my heart rate?''" example_env _ sleep_only_cache
              "example_request ''What about my heart rate?''" sleep_only_entry,
           OF followup_query_default_range]
        followup_query_default_range
  by (simp add: followup_query_types sleep_only_cache_def example_request_def
      sleep_only_entry_def example_env_def respond_def hasData_def generateWithRetry_def
      MODELS_def default_maxRetries_def attempts.simps one_chunk_model_def Let_def
      chunk_events_def buildRelevantDataPayload_def heartRateSummary_def)



end
